theory Spec2Isabelle
  imports Complex_Main "HOL-Library.AList"
begin

section \<open>The pyOptSparse driver of pyMission, embedded in HOL\<close>

text \<open>
  The source is \<^verbatim>\<open>pyoptsparse_driver.py\<close>: one class, \<^verbatim>\<open>pyOptSparseDriver\<close>, with the
  methods \<^verbatim>\<open>execute\<close>, \<^verbatim>\<open>objfunc\<close> and \<^verbatim>\<open>gradfunc\<close>. The class is glue between a host
  framework (OpenMDAO: parameters, objectives, constraints, the workflow) and a solver
  library (pyoptsparse). Neither is part of the repository, so both are parameters of the
  model: the host answers each call as a function of the calls made so far, and one run of
  the solver is a tree of callbacks that ends in a solution or an exception.
\<close>

subsection \<open>Python values and exceptions\<close>

text \<open>
  A finite float is modelled by the real number it denotes. \<^verbatim>\<open>PyInt\<close> is Python 2's
  integer (the result of \<^verbatim>\<open>int(...)\<close>). \<^verbatim>\<open>PyNumber\<close> is an instance of any other numeric
  class (a long, a numpy.int16, a Fraction), with the name of its type and the float that
  its \<^verbatim>\<open>__float__\<close> returns; \<^verbatim>\<open>PyObject\<close> is an instance of any other class, with the name
  of its type.
\<close>

datatype pyfloat = Finite real | Infinite | NaN

datatype pyval =
    PyNone
  | PyBool bool
  | PyInt int
  | NpInt32 int
  | NpInt64 int
  | PyFloat pyfloat
  | NpFloat32 pyfloat
  | NpFloat64 pyfloat
  | PyStr string
  | PyList "pyval list"
  | PyTuple "pyval list"
  | PySet "pyval list"
  | NdArray "pyfloat list"
  | PyNumber string pyfloat
  | PyObject string

text \<open>
  The exceptions of the model. All but the last two derive from \<^verbatim>\<open>Exception\<close>;
  \<^verbatim>\<open>KeyboardInterrupt\<close> and \<^verbatim>\<open>SystemExit\<close> derive from \<^verbatim>\<open>BaseException\<close> only, so an
  \<^verbatim>\<open>except Exception\<close> clause does not catch them. \<^verbatim>\<open>HostError\<close> is any other exception
  class deriving from \<^verbatim>\<open>Exception\<close> that the host framework raises, with a message that
  \<^verbatim>\<open>str\<close> can render; \<^verbatim>\<open>HostUnicodeError\<close> is such an exception whose message is a unicode
  string with a character outside ASCII, on which Python 2's \<^verbatim>\<open>str\<close> raises
  \<^verbatim>\<open>UnicodeEncodeError\<close>.
\<close>

datatype pyexn =
    ValueError string
  | ImportError string
  | TypeError
  | IndexError
  | KeyError string
  | OverflowError
  | HostError string
  | HostUnicodeError string
  | UnicodeEncodeError
  | IOError string
  | KeyboardInterrupt
  | SystemExit

fun is_Exception :: "pyexn \<Rightarrow> bool" where
  "is_Exception KeyboardInterrupt = False"
| "is_Exception SystemExit = False"
| "is_Exception _ = True"

text \<open>A dict is an association list in iteration order; \<^verbatim>\<open>d[k]\<close> raises \<^verbatim>\<open>KeyError\<close>.\<close>

type_synonym 'v dict = "(string \<times> 'v) list"

definition getitem :: "'v dict \<Rightarrow> string \<Rightarrow> pyexn + 'v" where
  "getitem d k = (case map_of d k of None \<Rightarrow> Inl (KeyError k) | Some v \<Rightarrow> Inr v)"

text \<open>\<^verbatim>\<open>'%s.out0' % x.pcomp_name\<close>\<close>

definition out0 :: "string \<Rightarrow> string" where
  "out0 pcomp_name = pcomp_name @ ''.out0''"

text \<open>\<^verbatim>\<open>zeros((size))\<close>\<close>

definition zeros :: "nat \<Rightarrow> pyval" where
  "zeros n = NdArray (replicate n (Finite 0))"

subsection \<open>Rounding: \<^verbatim>\<open>int(round(val))\<close>\<close>

text \<open>
  Python 2's \<^verbatim>\<open>round\<close> takes its argument as a C double (any object with \<^verbatim>\<open>__float__\<close>; a
  numpy array converts only when it has one element), rounds halves away from zero and
  returns a float; \<^verbatim>\<open>int\<close> of a float raises on NaN and on an infinity.
\<close>

fun py_float :: "pyval \<Rightarrow> pyexn + pyfloat" where
  "py_float (PyBool b) = Inr (Finite (if b then 1 else 0))"
| "py_float (PyInt i) = Inr (Finite (real_of_int i))"
| "py_float (NpInt32 i) = Inr (Finite (real_of_int i))"
| "py_float (NpInt64 i) = Inr (Finite (real_of_int i))"
| "py_float (PyFloat f) = Inr f"
| "py_float (NpFloat32 f) = Inr f"
| "py_float (NpFloat64 f) = Inr f"
| "py_float (NdArray [f]) = Inr f"
| "py_float (PyNumber n f) = Inr f"
| "py_float _ = Inl TypeError"

definition round_half_away :: "real \<Rightarrow> int" where
  "round_half_away x = (if 0 \<le> x then \<lfloor>x + 1 / 2\<rfloor> else - \<lfloor>- x + 1 / 2\<rfloor>)"

fun py_round :: "pyfloat \<Rightarrow> pyfloat" where
  "py_round (Finite x) = Finite (real_of_int (round_half_away x))"
| "py_round Infinite = Infinite"
| "py_round NaN = NaN"

fun py_int :: "pyfloat \<Rightarrow> pyexn + pyval" where
  "py_int (Finite x) = Inr (PyInt (if 0 \<le> x then \<lfloor>x\<rfloor> else \<lceil>x\<rceil>))"
| "py_int Infinite = Inl OverflowError"
| "py_int NaN = Inl (ValueError ''cannot convert float NaN to integer'')"

definition int_round :: "pyval \<Rightarrow> pyexn + pyval" where
  "int_round val = (case py_float val of Inl e \<Rightarrow> Inl e | Inr f \<Rightarrow> py_int (py_round f))"

subsection \<open>The host framework's objects\<close>

text \<open>
  A parameter, as the driver reads it: \<^verbatim>\<open>get_metadata()[1]\<close> (a dict), \<^verbatim>\<open>evaluate()\<close> (a
  sequence of values), \<^verbatim>\<open>get_low()\<close> and \<^verbatim>\<open>get_high()\<close>.
\<close>

record parameter =
  p_metadata :: "pyval dict"
  p_values :: "pyval list"
  p_low :: pyval
  p_high :: pyval

record objective =
  o_pcomp_name :: string

record constraint =
  c_pcomp_name :: string
  c_size :: nat
  c_linear :: bool

subsection \<open>The solver's problem description\<close>

text \<open>
  What \<^verbatim>\<open>addVarGroup\<close>, \<^verbatim>\<open>addObj\<close> and \<^verbatim>\<open>addConGroup\<close> receive. An argument that the call
  does not pass is \<open>None\<close> (\<^verbatim>\<open>linear\<close>, when not passed, is False).
\<close>

record var_group =
  vg_name :: string
  vg_nvars :: nat
  vg_type :: string
  vg_lower :: pyval
  vg_upper :: pyval
  vg_value :: "pyval list"
  vg_choices :: pyval

record con_group =
  cg_name :: string
  cg_ncon :: nat
  cg_lower :: "pyval option"
  cg_upper :: "pyval option"
  cg_linear :: bool
  cg_wrt :: "string list option"
  cg_jac :: "pyval dict option"

record optimization =
  op_title :: string
  op_variables :: "var_group list"
  op_objectives :: "string list"
  op_constraints :: "con_group list"

definition Optimization :: "string \<Rightarrow> optimization" where
  "Optimization t = \<lparr>op_title = t, op_variables = [], op_objectives = [], op_constraints = []\<rparr>"

definition addVarGroup :: "var_group \<Rightarrow> optimization \<Rightarrow> optimization" where
  "addVarGroup g p = p\<lparr>op_variables := op_variables p @ [g]\<rparr>"

definition addObj :: "string \<Rightarrow> optimization \<Rightarrow> optimization" where
  "addObj n p = p\<lparr>op_objectives := op_objectives p @ [n]\<rparr>"

definition addConGroup :: "con_group \<Rightarrow> optimization \<Rightarrow> optimization" where
  "addConGroup g p = p\<lparr>op_constraints := op_constraints p @ [g]\<rparr>"

subsection \<open>Choosing the variable kind (lines 88 to 108)\<close>

text \<open>
  \<^verbatim>\<open>isinstance(metadata['values'], (list, tuple, array, set))\<close>. The name \<^verbatim>\<open>array\<close> is
  numpy's array-building function (line 9 imports it, lines 243 and 248 call it), not a
  class. \<^verbatim>\<open>isinstance\<close> tries the entries of the tuple from the left and stops at the first
  that matches; reaching an entry that is not a class raises \<^verbatim>\<open>TypeError\<close>. So a list
  and a tuple are accepted, and every other object raises at the third entry, before
  \<^verbatim>\<open>set\<close> is tried.
\<close>

fun isinstance_choices :: "pyval \<Rightarrow> pyexn + bool" where
  "isinstance_choices (PyList _) = Inr True"
| "isinstance_choices (PyTuple _) = Inr True"
| "isinstance_choices _ = Inl TypeError"

definition quote :: string where
  "quote = [CHR 0x27]"

fun type_name :: "pyval \<Rightarrow> string" where
  "type_name PyNone = ''NoneType''"
| "type_name (PyBool _) = ''bool''"
| "type_name (PyInt _) = ''int''"
| "type_name (NpInt32 _) = ''numpy.int32''"
| "type_name (NpInt64 _) = ''numpy.int64''"
| "type_name (PyFloat _) = ''float''"
| "type_name (NpFloat32 _) = ''numpy.float32''"
| "type_name (NpFloat64 _) = ''numpy.float64''"
| "type_name (PyStr _) = ''str''"
| "type_name (PyList _) = ''list''"
| "type_name (PyTuple _) = ''tuple''"
| "type_name (PySet _) = ''set''"
| "type_name (NdArray _) = ''numpy.ndarray''"
| "type_name (PyNumber n f) = n"
| "type_name (PyObject n) = n"

definition unsupported_msg :: "string \<Rightarrow> pyval \<Rightarrow> string" where
  "unsupported_msg name val =
     ''Only continuous, discrete, or enumerated variables are supported. '' @ name @
     '' is <type '' @ quote @ type_name val @ quote @ ''>.''"

text \<open>
  The \<^verbatim>\<open>if\<close>/\<^verbatim>\<open>elif\<close> chain on the first value, taken when the metadata has no \<^verbatim>\<open>'values'\<close>
  entry. \<^verbatim>\<open>raise_exception\<close> is the host's way to raise the given class with the message
  (the host puts the driver's path name in front of the message).
\<close>

fun vartype_of_value :: "string \<Rightarrow> pyval \<Rightarrow> pyexn + (string \<times> pyval)" where
  "vartype_of_value name (PyBool b) = Inr (''d'', PyList [PyBool True, PyBool False])"
| "vartype_of_value name (PyInt i) = Inr (''i'', PyList [])"
| "vartype_of_value name (NpInt32 i) = Inr (''i'', PyList [])"
| "vartype_of_value name (NpInt64 i) = Inr (''i'', PyList [])"
| "vartype_of_value name (PyFloat f) = Inr (''c'', PyList [])"
| "vartype_of_value name (NpFloat32 f) = Inr (''c'', PyList [])"
| "vartype_of_value name (NpFloat64 f) = Inr (''c'', PyList [])"
| "vartype_of_value name val = Inl (ValueError (unsupported_msg name val))"

text \<open>
  Lines 92 to 108: the variable kind and the choices of one parameter. \<^verbatim>\<open>values[0]\<close>
  raises \<^verbatim>\<open>IndexError\<close> on an empty sequence.
\<close>

definition vartype_choices :: "string \<Rightarrow> pyval dict \<Rightarrow> pyval list \<Rightarrow> pyexn + (string \<times> pyval)" where
  "vartype_choices name metadata values =
     (case values of
        [] \<Rightarrow> Inl IndexError
      | val # _ \<Rightarrow>
          (case map_of metadata ''values'' of
             Some mv \<Rightarrow>
               (case isinstance_choices mv of
                  Inl e \<Rightarrow> Inl e
                | Inr True \<Rightarrow> Inr (''d'', mv)
                | Inr False \<Rightarrow> vartype_of_value name val)
           | None \<Rightarrow> vartype_of_value name val))"

subsection \<open>The driver's state, the host's answers and the solver\<close>

text \<open>
  The calls that the driver makes on the host and on the solver library, in the order it
  makes them. The history is the only state the host has in the model: the host answers a
  call as a function of the calls before it.
\<close>

datatype event =
    RunIteration
  | SetParameter string pyval
  | CalcGradient "string list" "string list"
  | Import string
  | Instantiate string
  | SetOption string pyval
  | CallSolver
  | PrintSolution
  | PrintMessage pyexn
  | PrintRule
  | PrintExc pyexn

text \<open>\<^verbatim>\<open>array(v)\<close>: the numpy array that \<^verbatim>\<open>objfunc\<close> builds from a value of the host.\<close>

datatype ndarray = Array pyval

type_synonym funcs = "ndarray dict"

type_synonym sens = "(pyval dict) dict"

record solution =
  sol_dvs :: "pyval dict"
  sol_inform :: pyval

text \<open>
  One run of the solver: it probes design points through \<^verbatim>\<open>objfunc\<close>, asks for
  sensitivities through \<^verbatim>\<open>gradfunc\<close>, and what it does next depends on what the callback
  returned (or raised); it ends with a solution or with an exception of its own.
\<close>

datatype solver_run =
    Finish solution
  | Crash pyexn
  | Probe "pyval dict" "pyexn + funcs \<times> nat \<Rightarrow> solver_run"
  | Sens "pyval dict" funcs "pyexn + sens \<times> nat \<Rightarrow> solver_run"

datatype sens_arg = SensFD pyval | SensGradfunc

text \<open>The attributes of \<^verbatim>\<open>self\<close>, and the history of calls.\<close>

record driver =
  optimizer :: string
  title :: string
  options :: "pyval dict"
  print_results :: bool
  pyopt_diff :: bool
  pyOpt_solution :: "solution option"
  param_type :: "string dict"
  nparam :: "nat option"
  objs :: "string list option"
  nlcons :: "string list option"
  lin_jacs :: sens
  trace :: "event list"

text \<open>
  The host framework and the solver library. The first group is what the host's accessors
  return; the second is how the host answers a call that runs model code (an exception
  or a value), given the history; the third is the solver library: which optimizer names
  import, and the run of the optimizer on a problem. \<open>print_raises\<close> is the exception, if
  any, that writing to the standard output or error stream raises. The accessors, the
  calls that add a group or an objective to the problem, the creation of the optimizer and
  \<^verbatim>\<open>setOption\<close> are taken to return normally.
\<close>

record env =
  get_parameters :: "parameter dict"
  total_parameters :: nat
  get_objectives :: "objective dict"
  get_eq_constraints :: "constraint dict"
  get_ineq_constraints :: "constraint dict"
  list_objective_targets :: "string list"
  fd_step :: pyval
  run_iteration_raises :: "event list \<Rightarrow> pyexn option"
  set_parameter_raises :: "event list \<Rightarrow> string \<Rightarrow> pyval \<Rightarrow> pyexn option"
  objective_evaluate :: "event list \<Rightarrow> string \<Rightarrow> pyexn + pyval"
  constraint_evaluate :: "event list \<Rightarrow> string \<Rightarrow> pyexn + pyval"
  calc_gradient_returns :: "event list \<Rightarrow> string list \<Rightarrow> string list \<Rightarrow> pyexn + sens"
  print_raises :: "event list \<Rightarrow> pyexn option"
  importable :: "string \<Rightarrow> bool"
  optimizer_run :: "string \<Rightarrow> pyval dict \<Rightarrow> optimization \<Rightarrow> sens_arg \<Rightarrow> solver_run"

text \<open>
  \<^verbatim>\<open>get_constraints(linear)\<close>, as the host documents it: the equality constraints, then the
  inequality constraints; with \<^verbatim>\<open>linear=True\<close> only those whose \<^verbatim>\<open>linear\<close> flag is True.
\<close>

fun get_constraints :: "env \<Rightarrow> bool option \<Rightarrow> constraint dict" where
  "get_constraints env None = get_eq_constraints env @ get_ineq_constraints env"
| "get_constraints env (Some b) =
     filter (\<lambda>(key, con). c_linear con = b) (get_eq_constraints env @ get_ineq_constraints env)"

text \<open>
  A method of the driver takes the state and returns an exception or a value, with the new
  state. \<open>record_call\<close> adds a call to the history.
\<close>

type_synonym 'a action = "driver \<Rightarrow> (pyexn + 'a) \<times> driver"

definition record_call :: "event \<Rightarrow> driver \<Rightarrow> driver" where
  "record_call e s = s\<lparr>trace := trace s @ [e]\<rparr>"

definition run_iteration :: "env \<Rightarrow> unit action" where
  "run_iteration env s =
     (case run_iteration_raises env (trace s) of
        Some e \<Rightarrow> (Inl e, record_call RunIteration s)
      | None \<Rightarrow> (Inr (), record_call RunIteration s))"

definition set_parameter_by_name :: "env \<Rightarrow> string \<Rightarrow> pyval \<Rightarrow> unit action" where
  "set_parameter_by_name env name val s =
     (case set_parameter_raises env (trace s) name val of
        Some e \<Rightarrow> (Inl e, record_call (SetParameter name val) s)
      | None \<Rightarrow> (Inr (), record_call (SetParameter name val) s))"

definition calc_gradient :: "env \<Rightarrow> string list \<Rightarrow> string list \<Rightarrow> sens action" where
  "calc_gradient env inputs outputs s =
     (calc_gradient_returns env (trace s) inputs outputs, record_call (CalcGradient inputs outputs) s)"

text \<open>A \<^verbatim>\<open>print\<close> statement, or \<^verbatim>\<open>traceback.print_exc()\<close>: \<open>ev\<close> says what is printed.\<close>

definition print_stmt :: "env \<Rightarrow> event \<Rightarrow> unit action" where
  "print_stmt env ev s =
     (case print_raises env (trace s) of
        Some e \<Rightarrow> (Inl e, record_call ev s)
      | None \<Rightarrow> (Inr (), record_call ev s))"

subsection \<open>The \<^verbatim>\<open>except\<close> block of the callbacks (lines 252 to 260, 297 to 305)\<close>

text \<open>\<^verbatim>\<open>str(msg)\<close> on the exception caught: the exception that it raises, if any.\<close>

fun str_raises :: "pyexn \<Rightarrow> pyexn option" where
  "str_raises (HostUnicodeError m) = Some UnicodeEncodeError"
| "str_raises _ = None"

text \<open>
  The same block stands in \<^verbatim>\<open>objfunc\<close> and in \<^verbatim>\<open>gradfunc\<close>: the message, a rule of 70 equals
  signs, the traceback, the rule again. An exception raised here leaves the callback.
\<close>

definition report :: "env \<Rightarrow> pyexn \<Rightarrow> unit action" where
  "report env msg s =
     (case str_raises msg of
        Some e \<Rightarrow> (Inl e, s)
      | None \<Rightarrow>
          (case print_stmt env (PrintMessage msg) s of
             (Inl e, s1) \<Rightarrow> (Inl e, s1)
           | (Inr u, s1) \<Rightarrow>
               (case print_stmt env PrintRule s1 of
                  (Inl e, s2) \<Rightarrow> (Inl e, s2)
                | (Inr u, s2) \<Rightarrow>
                    (case print_stmt env (PrintExc msg) s2 of
                       (Inl e, s3) \<Rightarrow> (Inl e, s3)
                     | (Inr u, s3) \<Rightarrow> print_stmt env PrintRule s3))))"

subsection \<open>The loop that writes design variables into the host (lines 191 to 197, 229 to 235)\<close>

text \<open>
  The same loop stands in \<^verbatim>\<open>execute\<close> and in \<^verbatim>\<open>objfunc\<close>: for each parameter name, the value
  of \<^verbatim>\<open>dv_dict\<close>, rounded when the recorded kind is \<^verbatim>\<open>'i'\<close>, goes to \<^verbatim>\<open>set_parameter_by_name\<close>.
\<close>

fun set_parameters :: "env \<Rightarrow> string dict \<Rightarrow> string list \<Rightarrow> pyval dict \<Rightarrow> unit action" where
  "set_parameters env param_types [] dv_dict s = (Inr (), s)"
| "set_parameters env param_types (name # rest) dv_dict s =
     (case getitem dv_dict name of
        Inl e \<Rightarrow> (Inl e, s)
      | Inr val \<Rightarrow>
          (case getitem param_types name of
             Inl e \<Rightarrow> (Inl e, s)
           | Inr t \<Rightarrow>
               (case (if t = ''i'' then int_round val else Inr val) of
                  Inl e \<Rightarrow> (Inl e, s)
                | Inr val' \<Rightarrow>
                    (case set_parameter_by_name env name val' s of
                       (Inl e, s') \<Rightarrow> (Inl e, s')
                     | (Inr u, s') \<Rightarrow> set_parameters env param_types rest dv_dict s'))))"

subsection \<open>\<^verbatim>\<open>objfunc\<close> (lines 204 to 263)\<close>

text \<open>
  The two loops that fill \<^verbatim>\<open>func_dict\<close>. They return the exception that stopped them, if
  any, and the dictionary as filled so far.
\<close>

fun evaluate_objectives :: "env \<Rightarrow> event list \<Rightarrow> objective dict \<Rightarrow> funcs \<Rightarrow> pyexn option \<times> funcs" where
  "evaluate_objectives env h [] func_dict = (None, func_dict)"
| "evaluate_objectives env h ((key, obj) # rest) func_dict =
     (case objective_evaluate env h key of
        Inl e \<Rightarrow> (Some e, func_dict)
      | Inr v \<Rightarrow>
          evaluate_objectives env h rest
            (AList.update (out0 (o_pcomp_name obj)) (Array v) func_dict))"

fun evaluate_constraints :: "env \<Rightarrow> event list \<Rightarrow> constraint dict \<Rightarrow> funcs \<Rightarrow> pyexn option \<times> funcs" where
  "evaluate_constraints env h [] func_dict = (None, func_dict)"
| "evaluate_constraints env h ((key, con) # rest) func_dict =
     (case constraint_evaluate env h key of
        Inl e \<Rightarrow> (Some e, func_dict)
      | Inr v \<Rightarrow>
          evaluate_constraints env h rest
            (AList.update (out0 (c_pcomp_name con)) (Array v) func_dict))"

text \<open>The \<^verbatim>\<open>try\<close> block of \<^verbatim>\<open>objfunc\<close>: the exception raised in it, if any, and \<^verbatim>\<open>func_dict\<close>.\<close>

definition objfunc_try :: "env \<Rightarrow> pyval dict \<Rightarrow> driver \<Rightarrow> (pyexn option \<times> funcs) \<times> driver" where
  "objfunc_try env dv_dict s =
     (case set_parameters env (param_type s) (map fst (get_parameters env)) dv_dict s of
        (Inl e, s1) \<Rightarrow> ((Some e, []), s1)
      | (Inr u, s1) \<Rightarrow>
          (case run_iteration env s1 of
             (Inl e, s2) \<Rightarrow> ((Some e, []), s2)
           | (Inr u, s2) \<Rightarrow>
               (case evaluate_objectives env (trace s2) (get_objectives env) [] of
                  (Some e, func_dict) \<Rightarrow> ((Some e, func_dict), s2)
                | (None, func_dict) \<Rightarrow>
                    (evaluate_constraints env (trace s2) (get_constraints env None) func_dict, s2))))"

text \<open>
  \<^verbatim>\<open>objfunc\<close>: \<^verbatim>\<open>fail\<close> starts as 1 and becomes 0 at the end of the \<^verbatim>\<open>try\<close> block. The handler
  is \<^verbatim>\<open>except Exception\<close>: it prints the message and the traceback; an exception that does
  not derive from \<^verbatim>\<open>Exception\<close> leaves the callback, and so does one that the printing
  raises.
\<close>

definition objfunc :: "env \<Rightarrow> pyval dict \<Rightarrow> driver \<Rightarrow> (pyexn + funcs \<times> nat) \<times> driver" where
  "objfunc env dv_dict s =
     (case objfunc_try env dv_dict s of
        ((None, func_dict), s') \<Rightarrow> (Inr (func_dict, 0), s')
      | ((Some e, func_dict), s') \<Rightarrow>
          (if is_Exception e
           then (case report env e s' of
                   (Inl e', s'') \<Rightarrow> (Inl e', s'')
                 | (Inr u, s'') \<Rightarrow> (Inr (func_dict, 1), s''))
           else (Inl e, s')))"

subsection \<open>\<^verbatim>\<open>gradfunc\<close> (lines 265 to 308)\<close>

text \<open>
  The \<^verbatim>\<open>try\<close> block is one call: \<^verbatim>\<open>calc_gradient(dv_dict.keys(), self.objs + self.nlcons)\<close>.
  Both lists are \<^verbatim>\<open>None\<close> until \<^verbatim>\<open>execute\<close> sets them, and \<^verbatim>\<open>+\<close> on \<^verbatim>\<open>None\<close> raises
  \<^verbatim>\<open>TypeError\<close>. \<^verbatim>\<open>sens_dict\<close> is assigned only when the call returns.
\<close>

definition gradfunc_try :: "env \<Rightarrow> pyval dict \<Rightarrow> sens action" where
  "gradfunc_try env dv_dict s =
     (case (objs s, nlcons s) of
        (Some os, Some ns) \<Rightarrow> calc_gradient env (map fst dv_dict) (os @ ns) s
      | _ \<Rightarrow> (Inl TypeError, s))"

definition gradfunc :: "env \<Rightarrow> pyval dict \<Rightarrow> funcs \<Rightarrow> driver \<Rightarrow> (pyexn + sens \<times> nat) \<times> driver" where
  "gradfunc env dv_dict func_dict s =
     (case gradfunc_try env dv_dict s of
        (Inr sens_dict, s') \<Rightarrow> (Inr (sens_dict, 0), s')
      | (Inl e, s') \<Rightarrow>
          (if is_Exception e
           then (case report env e s' of
                   (Inl e', s'') \<Rightarrow> (Inl e', s'')
                 | (Inr u, s'') \<Rightarrow> (Inr ([], 1), s''))
           else (Inl e, s')))"

subsection \<open>The solver's run\<close>

text \<open>
  The solver calls back into the driver. With \<^verbatim>\<open>sens='FD'\<close> there is no gradient function:
  calling the string raises \<^verbatim>\<open>TypeError\<close> inside the solver.
\<close>

primrec run_solver :: "solver_run \<Rightarrow> env \<Rightarrow> bool \<Rightarrow> driver \<Rightarrow> (pyexn + solution) \<times> driver" where
  "run_solver (Finish sol) env has_grad s = (Inr sol, s)"
| "run_solver (Crash e) env has_grad s = (Inl e, s)"
| "run_solver (Probe dv_dict k) env has_grad s =
     (case objfunc env dv_dict s of (r, s') \<Rightarrow> run_solver (k r) env has_grad s')"
| "run_solver (Sens dv_dict func_dict k) env has_grad s =
     (if has_grad
      then (case gradfunc env dv_dict func_dict s of (r, s') \<Rightarrow> run_solver (k r) env has_grad s')
      else run_solver (k (Inl TypeError)) env has_grad s)"

subsection \<open>\<^verbatim>\<open>execute\<close> (lines 71 to 202)\<close>

text \<open>
  Lines 85 to 116, the loop over \<^verbatim>\<open>get_parameters().iteritems()\<close>: the kind is recorded in
  \<^verbatim>\<open>self.param_type\<close>, the group is added to the problem, the name to \<^verbatim>\<open>param_list\<close>.
\<close>

fun add_parameters ::
  "parameter dict \<Rightarrow> optimization \<Rightarrow> string list \<Rightarrow> (optimization \<times> string list) action" where
  "add_parameters [] opt_prob param_list s = (Inr (opt_prob, param_list), s)"
| "add_parameters ((name, param) # rest) opt_prob param_list s =
     (case vartype_choices name (p_metadata param) (p_values param) of
        Inl e \<Rightarrow> (Inl e, s)
      | Inr (vartype, choices) \<Rightarrow>
          add_parameters rest
            (addVarGroup
               \<lparr>vg_name = name, vg_nvars = length (p_values param), vg_type = vartype,
                vg_lower = p_low param, vg_upper = p_high param,
                vg_value = p_values param, vg_choices = choices\<rparr> opt_prob)
            (param_list @ [name])
            (s\<lparr>param_type := AList.update name vartype (param_type s)\<rparr>))"

text \<open>Lines 119 to 121.\<close>

fun add_objectives :: "objective dict \<Rightarrow> optimization \<Rightarrow> optimization" where
  "add_objectives [] opt_prob = opt_prob"
| "add_objectives ((name, obj) # rest) opt_prob =
     add_objectives rest (addObj (out0 (o_pcomp_name obj)) opt_prob)"

text \<open>Lines 124 to 128: the Jacobian of the linear constraints, saved in \<^verbatim>\<open>self.lin_jacs\<close>.\<close>

definition save_lin_jacs :: "env \<Rightarrow> string list \<Rightarrow> unit action" where
  "save_lin_jacs env param_list s =
     (let lcons = get_constraints env (Some True) in
      if length lcons > 0
      then (case calc_gradient env param_list (map (\<lambda>(key, obj). out0 (c_pcomp_name obj)) lcons) s of
              (Inl e, s') \<Rightarrow> (Inl e, s')
            | (Inr jacs, s') \<Rightarrow> (Inr (), s'\<lparr>lin_jacs := jacs\<rparr>))
      else (Inr (), s))"

text \<open>Lines 131 to 143: the equality constraints.\<close>

fun add_eq_constraints ::
  "constraint dict \<Rightarrow> string list \<Rightarrow> sens \<Rightarrow> optimization \<Rightarrow> string list \<Rightarrow>
   pyexn + optimization \<times> string list" where
  "add_eq_constraints [] param_list jacs opt_prob nlcons' = Inr (opt_prob, nlcons')"
| "add_eq_constraints ((key, con) # rest) param_list jacs opt_prob nlcons' =
     (let size = c_size con; lower = zeros size; upper = zeros size;
          name = out0 (c_pcomp_name con)
      in if c_linear con
         then (case getitem jacs name of
                 Inl e \<Rightarrow> Inl e
               | Inr jac \<Rightarrow>
                   add_eq_constraints rest param_list jacs
                     (addConGroup
                        \<lparr>cg_name = name, cg_ncon = size, cg_lower = Some lower,
                         cg_upper = Some upper, cg_linear = True, cg_wrt = Some param_list,
                         cg_jac = Some jac\<rparr> opt_prob)
                     nlcons')
         else add_eq_constraints rest param_list jacs
                (addConGroup
                   \<lparr>cg_name = name, cg_ncon = size, cg_lower = Some lower,
                    cg_upper = Some upper, cg_linear = False, cg_wrt = None,
                    cg_jac = None\<rparr> opt_prob)
                (nlcons' @ [name]))"

text \<open>Lines 146 to 155: the inequality constraints.\<close>

fun add_ineq_constraints ::
  "constraint dict \<Rightarrow> string list \<Rightarrow> sens \<Rightarrow> optimization \<Rightarrow> string list \<Rightarrow>
   pyexn + optimization \<times> string list" where
  "add_ineq_constraints [] param_list jacs opt_prob nlcons' = Inr (opt_prob, nlcons')"
| "add_ineq_constraints ((key, con) # rest) param_list jacs opt_prob nlcons' =
     (let size = c_size con; upper = zeros size; name = out0 (c_pcomp_name con)
      in if c_linear con
         then (case getitem jacs name of
                 Inl e \<Rightarrow> Inl e
               | Inr jac \<Rightarrow>
                   add_ineq_constraints rest param_list jacs
                     (addConGroup
                        \<lparr>cg_name = name, cg_ncon = size, cg_lower = None,
                         cg_upper = Some upper, cg_linear = True, cg_wrt = Some param_list,
                         cg_jac = Some jac\<rparr> opt_prob)
                     nlcons')
         else add_ineq_constraints rest param_list jacs
                (addConGroup
                   \<lparr>cg_name = name, cg_ncon = size, cg_lower = None,
                    cg_upper = Some upper, cg_linear = False, cg_wrt = None,
                    cg_jac = None\<rparr> opt_prob)
                (nlcons' @ [name]))"

text \<open>Lines 75 to 158: everything \<^verbatim>\<open>execute\<close> does before it asks for the optimizer.\<close>

definition build_problem :: "env \<Rightarrow> optimization action" where
  "build_problem env s0 =
     (case run_iteration env (s0\<lparr>pyOpt_solution := None\<rparr>) of
        (Inl e, s1) \<Rightarrow> (Inl e, s1)
      | (Inr u, s1) \<Rightarrow>
          (case add_parameters (get_parameters env) (Optimization (title s1)) []
                  (s1\<lparr>param_type := [], nparam := Some (total_parameters env)\<rparr>) of
             (Inl e, s2) \<Rightarrow> (Inl e, s2)
           | (Inr (prob1, param_list), s2) \<Rightarrow>
               (case save_lin_jacs env param_list s2 of
                  (Inl e, s3) \<Rightarrow> (Inl e, s3)
                | (Inr u, s3) \<Rightarrow>
                    (case add_eq_constraints (get_eq_constraints env) param_list (lin_jacs s3)
                            (add_objectives (get_objectives env) prob1) [] of
                       Inl e \<Rightarrow> (Inl e, s3)
                     | Inr (prob2, nlcons1) \<Rightarrow>
                         (case add_ineq_constraints (get_ineq_constraints env) param_list
                                 (lin_jacs s3) prob2 nlcons1 of
                            Inl e \<Rightarrow> (Inl e, s3)
                          | Inr (prob3, nlcons2) \<Rightarrow>
                              (Inr prob3,
                               s3\<lparr>objs := Some (list_objective_targets env),
                                  nlcons := Some nlcons2\<rparr>))))))"

text \<open>Lines 160 to 186: import the optimizer, set its options, run it, print the result.\<close>

definition unavailable_msg :: "string \<Rightarrow> string" where
  "unavailable_msg name = ''Optimizer '' @ name @ '' is not available in this installation.''"

fun set_options :: "pyval dict \<Rightarrow> driver \<Rightarrow> driver" where
  "set_options [] s = s"
| "set_options ((option, val) # rest) s = set_options rest (record_call (SetOption option val) s)"

definition run_optimizer :: "env \<Rightarrow> optimization \<Rightarrow> solution action" where
  "run_optimizer env opt_prob s0 =
     (let name = optimizer s0; s1 = record_call (Import name) s0
      in if \<not> importable env name then (Inl (ImportError (unavailable_msg name)), s1)
         else
           (let s2 = set_options (options s1) (record_call (Instantiate name) s1);
                sens = (if pyopt_diff s2 then SensFD (fd_step env) else SensGradfunc)
            in case run_solver (optimizer_run env name (options s2) opt_prob sens) env
                      (\<not> pyopt_diff s2) (record_call CallSolver s2) of
                 (Inl e, s3) \<Rightarrow> (Inl e, s3)
               | (Inr sol, s3) \<Rightarrow>
                   (if print_results s3
                    then (case print_stmt env PrintSolution s3 of
                            (Inl e, s4) \<Rightarrow> (Inl e, s4)
                          | (Inr u, s4) \<Rightarrow> (Inr sol, s4))
                    else (Inr sol, s3))))"

text \<open>Lines 188 to 202: the optimum goes back into the host, and the host runs once more.\<close>

definition pull_optimum :: "env \<Rightarrow> solution \<Rightarrow> unit action" where
  "pull_optimum env sol s =
     (case set_parameters env (param_type s) (map fst (get_parameters env)) (sol_dvs sol) s of
        (Inl e, s1) \<Rightarrow> (Inl e, s1)
      | (Inr u, s1) \<Rightarrow>
          (case run_iteration env s1 of
             (Inl e, s2) \<Rightarrow> (Inl e, s2)
           | (Inr u, s2) \<Rightarrow> (Inr (), s2\<lparr>pyOpt_solution := Some sol\<rparr>)))"

definition execute :: "env \<Rightarrow> unit action" where
  "execute env s =
     (case build_problem env s of
        (Inl e, s1) \<Rightarrow> (Inl e, s1)
      | (Inr opt_prob, s1) \<Rightarrow>
          (case run_optimizer env opt_prob s1 of
             (Inl e, s2) \<Rightarrow> (Inl e, s2)
           | (Inr sol, s2) \<Rightarrow> pull_optimum env sol s2))"

subsection \<open>A concrete host and solver\<close>

text \<open>
  The driver as \<^verbatim>\<open>__init__\<close> and the defaults of its traits leave it, for a given optimizer
  name.
\<close>

definition new_driver :: "string \<Rightarrow> driver" where
  "new_driver name =
     \<lparr>optimizer = name, title = ''Optimization using pyOpt'', options = [],
      print_results = True, pyopt_diff = False, pyOpt_solution = None, param_type = [],
      nparam = None, objs = None, nlcons = None, lin_jacs = [], trace = []\<rparr>"

text \<open>
  A small model: a float parameter \<open>x\<close> in [0, 10], an integer parameter \<open>n\<close> in [0, 5],
  one objective, a linear equality constraint and a nonlinear inequality constraint of
  size 2. Nothing raises. The only optimizer that imports is SNOPT; it probes one point,
  asks for the sensitivities there and returns an optimum with \<open>n = 2.5\<close>.
\<close>

definition demo_solution :: solution where
  "demo_solution =
     \<lparr>sol_dvs = [(''x'', NdArray [Finite (5 / 4)]), (''n'', NdArray [Finite (5 / 2)])],
      sol_inform = PyInt 0\<rparr>"

definition demo_probe :: "pyval dict" where
  "demo_probe = [(''x'', NdArray [Finite 2]), (''n'', NdArray [Finite (- 7 / 2)])]"

definition demo_host :: env where
  "demo_host =
     \<lparr>get_parameters =
        [(''x'', \<lparr>p_metadata = [], p_values = [PyFloat (Finite (3 / 2))],
                  p_low = PyFloat (Finite 0), p_high = PyFloat (Finite 10)\<rparr>),
         (''n'', \<lparr>p_metadata = [], p_values = [PyInt 2],
                  p_low = PyInt 0, p_high = PyInt 5\<rparr>)],
      total_parameters = 2,
      get_objectives = [(''f'', \<lparr>o_pcomp_name = ''_pseudo_0''\<rparr>)],
      get_eq_constraints =
        [(''g'', \<lparr>c_pcomp_name = ''_pseudo_1'', c_size = 1, c_linear = True\<rparr>)],
      get_ineq_constraints =
        [(''h'', \<lparr>c_pcomp_name = ''_pseudo_2'', c_size = 2, c_linear = False\<rparr>)],
      list_objective_targets = [''_pseudo_0.out0''],
      fd_step = PyFloat (Finite (1 / 1000000)),
      run_iteration_raises = (\<lambda>h. None),
      set_parameter_raises = (\<lambda>h name val. None),
      objective_evaluate = (\<lambda>h key. Inr (PyFloat (Finite 1))),
      constraint_evaluate = (\<lambda>h key. Inr (NdArray [Finite 0])),
      calc_gradient_returns =
        (\<lambda>h inputs outputs.
           Inr (map (\<lambda>out. (out, map (\<lambda>inp. (inp, NdArray [Finite 1])) inputs)) outputs)),
      print_raises = (\<lambda>h. None),
      importable = (\<lambda>name. name = ''SNOPT''),
      optimizer_run =
        (\<lambda>name opts opt_prob sens.
           Probe demo_probe (\<lambda>r. Sens demo_probe [] (\<lambda>r. Finish demo_solution)))\<rparr>"

text \<open>The same model with an enumerated parameter whose choice set is a Python set.\<close>

definition set_choices_host :: env where
  "set_choices_host =
     demo_host\<lparr>get_parameters :=
       [(''mode'', \<lparr>p_metadata = [(''values'', PySet [PyInt 1, PyInt 2])],
                    p_values = [PyInt 1], p_low = PyInt 1, p_high = PyInt 2\<rparr>)]\<rparr>"

text \<open>The same model, interrupted from the keyboard while the model runs.\<close>

definition interrupted_host :: env where
  "interrupted_host = demo_host\<lparr>run_iteration_raises := (\<lambda>h. Some KeyboardInterrupt)\<rparr>"

text \<open>The same model, with a component that leaves the interpreter while it is differentiated.\<close>

definition exiting_host :: env where
  "exiting_host = demo_host\<lparr>calc_gradient_returns := (\<lambda>h inputs outputs. Inl SystemExit)\<rparr>"

text \<open>
  The same model, with a component that fails while the model runs with a message that
  \<^verbatim>\<open>str\<close> cannot render (in the source's Python 2, \<^verbatim>\<open>ValueError(u'caf\xe9')\<close>).
\<close>

definition unicode_host :: env where
  "unicode_host = demo_host\<lparr>run_iteration_raises := (\<lambda>h. Some (HostUnicodeError ''ValueError''))\<rparr>"

text \<open>The same model, with a gradient that fails in that way.\<close>

definition unicode_gradient_host :: env where
  "unicode_gradient_host =
     demo_host\<lparr>calc_gradient_returns := (\<lambda>h inputs outputs. Inl (HostUnicodeError ''ValueError''))\<rparr>"

text \<open>The same model, with a gradient that fails with a message that can be printed.\<close>

definition failing_gradient_host :: env where
  "failing_gradient_host =
     demo_host\<lparr>calc_gradient_returns := (\<lambda>h inputs outputs. Inl (HostError ''RuntimeError''))\<rparr>"

text \<open>The same model, with a component that fails while the model runs.\<close>

definition failing_host :: env where
  "failing_host = demo_host\<lparr>run_iteration_raises := (\<lambda>h. Some (HostError ''RuntimeError''))\<rparr>"

text \<open>The problem that \<^verbatim>\<open>execute\<close> builds for the small model, and the driver then.\<close>

definition demo_problem :: optimization where
  "demo_problem =
     \<lparr>op_title = ''Optimization using pyOpt'',
      op_variables =
        [\<lparr>vg_name = ''x'', vg_nvars = 1, vg_type = ''c'', vg_lower = PyFloat (Finite 0),
          vg_upper = PyFloat (Finite 10), vg_value = [PyFloat (Finite (3 / 2))],
          vg_choices = PyList []\<rparr>,
         \<lparr>vg_name = ''n'', vg_nvars = 1, vg_type = ''i'', vg_lower = PyInt 0,
          vg_upper = PyInt 5, vg_value = [PyInt 2], vg_choices = PyList []\<rparr>],
      op_objectives = [''_pseudo_0.out0''],
      op_constraints =
        [\<lparr>cg_name = ''_pseudo_1.out0'', cg_ncon = 1, cg_lower = Some (NdArray [Finite 0]),
          cg_upper = Some (NdArray [Finite 0]), cg_linear = True,
          cg_wrt = Some [''x'', ''n''],
          cg_jac = Some [(''x'', NdArray [Finite 1]), (''n'', NdArray [Finite 1])]\<rparr>,
         \<lparr>cg_name = ''_pseudo_2.out0'', cg_ncon = 2, cg_lower = None,
          cg_upper = Some (NdArray [Finite 0, Finite 0]), cg_linear = False,
          cg_wrt = None, cg_jac = None\<rparr>]\<rparr>"

definition demo_ready :: driver where
  "demo_ready = snd (build_problem demo_host (new_driver ''SNOPT''))"

text \<open>
  The same model with one integer parameter \<open>k\<close> of three values instead of \<open>x\<close> and \<open>n\<close>.
  The solver probes \<open>k = [1.2, 2.25, 2.7]\<close> and returns that point as the optimum.
\<close>

definition vec_probe :: "pyval dict" where
  "vec_probe = [(''k'', NdArray [Finite (6 / 5), Finite (9 / 4), Finite (27 / 10)])]"

definition vec_solution :: solution where
  "vec_solution = \<lparr>sol_dvs = vec_probe, sol_inform = PyInt 0\<rparr>"

definition vec_host :: env where
  "vec_host =
     demo_host\<lparr>get_parameters :=
       [(''k'', \<lparr>p_metadata = [], p_values = [PyInt 1, PyInt 2, PyInt 3],
                 p_low = PyInt 0, p_high = PyInt 5\<rparr>)],
       total_parameters := 3,
       optimizer_run := (\<lambda>name opts opt_prob sens. Probe vec_probe (\<lambda>r. Finish vec_solution))\<rparr>"

definition vec_ready :: driver where
  "vec_ready = snd (build_problem vec_host (new_driver ''SNOPT''))"

definition vec_problem :: optimization where
  "vec_problem =
     demo_problem\<lparr>op_variables :=
       [\<lparr>vg_name = ''k'', vg_nvars = 3, vg_type = ''i'', vg_lower = PyInt 0,
         vg_upper = PyInt 5, vg_value = [PyInt 1, PyInt 2, PyInt 3],
         vg_choices = PyList []\<rparr>],
       op_constraints :=
        [\<lparr>cg_name = ''_pseudo_1.out0'', cg_ncon = 1, cg_lower = Some (NdArray [Finite 0]),
          cg_upper = Some (NdArray [Finite 0]), cg_linear = True,
          cg_wrt = Some [''k''],
          cg_jac = Some [(''k'', NdArray [Finite 1])]\<rparr>,
         \<lparr>cg_name = ''_pseudo_2.out0'', cg_ncon = 2, cg_lower = None,
          cg_upper = Some (NdArray [Finite 0, Finite 0]), cg_linear = False,
          cg_wrt = None, cg_jac = None\<rparr>]\<rparr>"

subsection \<open>Reading the history\<close>

text \<open>
  \<open>nearest_int_of raw v\<close>: \<open>v\<close> is a Python int, and no integer is nearer to the float
  that \<open>raw\<close> converts to.
\<close>

definition nearest_int_of :: "pyval \<Rightarrow> pyval \<Rightarrow> bool" where
  "nearest_int_of raw v =
     (case (py_float raw, v) of
        (Inr (Finite x), PyInt k) \<Rightarrow> \<bar>real_of_int k - x\<bar> \<le> 1 / 2
      | _ \<Rightarrow> False)"

text \<open>
  \<open>writes_rounded types dv ev\<close>: if the call \<open>ev\<close> sets a parameter, then \<open>dv\<close> has a value
  for it, and the call passes that value, rounded to a Python int when \<open>types\<close> records the
  kind \<^verbatim>\<open>'i'\<close> for the parameter.
\<close>

definition writes_rounded :: "string dict \<Rightarrow> pyval dict \<Rightarrow> event \<Rightarrow> bool" where
  "writes_rounded types dv ev =
     (case ev of
        SetParameter name v \<Rightarrow>
          (case map_of dv name of
             None \<Rightarrow> False
           | Some raw \<Rightarrow>
               (if map_of types name = Some ''i'' then nearest_int_of raw v else v = raw))
      | _ \<Rightarrow> True)"

text \<open>
  \<open>writes_int types ev\<close>: if the call \<open>ev\<close> sets a parameter for which \<open>types\<close> records the
  kind \<^verbatim>\<open>'i'\<close>, then the value it passes is a Python int.
\<close>

definition writes_int :: "string dict \<Rightarrow> event \<Rightarrow> bool" where
  "writes_int types ev =
     (case ev of
        SetParameter name v \<Rightarrow>
          (if map_of types name = Some ''i'' then (case v of PyInt k \<Rightarrow> True | _ \<Rightarrow> False)
           else True)
      | _ \<Rightarrow> True)"

text \<open>The parameter that a call sets, if it sets one.\<close>

fun write_target :: "event \<Rightarrow> string option" where
  "write_target (SetParameter name v) = Some name"
| "write_target _ = None"

text \<open>The value that the last \<^verbatim>\<open>set_parameter_by_name\<close> of a history gave to a parameter.\<close>

fun last_set :: "event list \<Rightarrow> string \<Rightarrow> pyval option" where
  "last_set [] name = None"
| "last_set (ev # rest) name =
     (case last_set rest name of
        Some v \<Rightarrow> Some v
      | None \<Rightarrow> (case ev of SetParameter n v \<Rightarrow> (if n = name then Some v else None) | _ \<Rightarrow> None))"

text \<open>The calls that start a solver: creating the optimizer and running it.\<close>

fun solver_call :: "event \<Rightarrow> bool" where
  "solver_call (Instantiate name) = True"
| "solver_call (SetOption option val) = True"
| "solver_call CallSolver = True"
| "solver_call _ = False"

text \<open>
  The output names that \<^verbatim>\<open>execute\<close> registers with the solver: one per objective, then one
  per constraint.
\<close>

definition output_names :: "env \<Rightarrow> string list" where
  "output_names env =
     map (\<lambda>(key, obj). out0 (o_pcomp_name obj)) (get_objectives env) @
     map (\<lambda>(key, con). out0 (c_pcomp_name con)) (get_eq_constraints env @ get_ineq_constraints env)"

text \<open>The output names of the constraints that are not flagged linear.\<close>

definition nonlinear_names :: "env \<Rightarrow> string list" where
  "nonlinear_names env =
     map (\<lambda>(key, con). out0 (c_pcomp_name con))
       (filter (\<lambda>(key, con). \<not> c_linear con) (get_eq_constraints env @ get_ineq_constraints env))"

text \<open>The output names of the constraints that are flagged linear.\<close>

definition linear_names :: "env \<Rightarrow> string list" where
  "linear_names env =
     map (\<lambda>(key, con). out0 (c_pcomp_name con))
       (filter (\<lambda>(key, con). c_linear con) (get_eq_constraints env @ get_ineq_constraints env))"

text \<open>A value of one of the three floating-point types that line 103 accepts.\<close>

fun is_float :: "pyval \<Rightarrow> bool" where
  "is_float (PyFloat f) = True"
| "is_float (NpFloat32 f) = True"
| "is_float (NpFloat64 f) = True"
| "is_float _ = False"

text \<open>
  \<open>zero_bounds equality con g\<close>: the group \<open>g\<close> is the constraint \<open>con\<close> with a zero vector of
  its size as upper bound and, for an equality constraint, as lower bound too; for an
  inequality constraint no lower bound is passed.
\<close>

definition zero_bounds :: "bool \<Rightarrow> constraint \<Rightarrow> con_group \<Rightarrow> bool" where
  "zero_bounds equality con g =
     (cg_name g = out0 (c_pcomp_name con) \<and> cg_ncon g = c_size con \<and>
      cg_upper g = Some (zeros (c_size con)) \<and>
      cg_lower g = (if equality then Some (zeros (c_size con)) else None))"

text \<open>
  \<open>jacobian_supplied param_list jacs con g\<close>: the group \<open>g\<close> is the constraint \<open>con\<close>; when
  \<open>con\<close> is flagged linear, \<open>g\<close> is registered as linear with respect to \<open>param_list\<close> and
  carries the entry of \<open>jacs\<close> for its name; otherwise it carries no Jacobian.
\<close>

definition jacobian_supplied :: "string list \<Rightarrow> sens \<Rightarrow> constraint \<Rightarrow> con_group \<Rightarrow> bool" where
  "jacobian_supplied param_list jacs con g =
     (cg_name g = out0 (c_pcomp_name con) \<and>
      (if c_linear con
       then cg_linear g \<and> cg_wrt g = Some param_list \<and>
            (case cg_jac g of None \<Rightarrow> False | Some jac \<Rightarrow> map_of jacs (cg_name g) = Some jac)
       else \<not> cg_linear g \<and> cg_wrt g = None \<and> cg_jac g = None))"

section \<open>Lemmas about the model\<close>

subsection \<open>Rounding and dictionary access\<close>

lemma round_half_away_nearest: "\<bar>real_of_int (round_half_away x) - x\<bar> \<le> 1 / 2"
proof (cases "0 \<le> x")
  case True
  then have r: "round_half_away x = \<lfloor>x + 1 / 2\<rfloor>"
    by (simp add: round_half_away_def)
  have "real_of_int \<lfloor>x + 1 / 2\<rfloor> \<le> x + 1 / 2" "x + 1 / 2 < real_of_int \<lfloor>x + 1 / 2\<rfloor> + 1"
    by linarith+
  then show ?thesis unfolding r by linarith
next
  case False
  then have r: "round_half_away x = - \<lfloor>- x + 1 / 2\<rfloor>"
    by (simp add: round_half_away_def)
  have "real_of_int \<lfloor>- x + 1 / 2\<rfloor> \<le> - x + 1 / 2" "- x + 1 / 2 < real_of_int \<lfloor>- x + 1 / 2\<rfloor> + 1"
    by linarith+
  then show ?thesis unfolding r of_int_minus by linarith
qed

lemma int_round_Inr:
  "int_round val = Inr v \<Longrightarrow> \<exists>x. py_float val = Inr (Finite x) \<and> v = PyInt (round_half_away x)"
  unfolding int_round_def
  apply (cases "py_float val")
   apply simp
  subgoal for f by (cases f) auto
  done

lemma int_round_nearest: "int_round val = Inr v \<Longrightarrow> nearest_int_of val v"
  using int_round_Inr [of val v] round_half_away_nearest
  by (auto simp: nearest_int_of_def)

lemma getitem_Inr: "getitem d k = Inr v \<longleftrightarrow> map_of d k = Some v"
  by (simp add: getitem_def split: option.splits)

lemma list_all2_memberD:
  "list_all2 P xs ys \<Longrightarrow> x \<in> set xs \<Longrightarrow> \<exists>y\<in>set ys. P x y"
  by (induction rule: list_all2_induct) auto

subsection \<open>The calls on the host\<close>

lemma run_iteration_state: "run_iteration env s = (r, s') \<Longrightarrow> s' = record_call RunIteration s"
  by (auto simp: run_iteration_def split: option.splits)

lemma set_parameter_by_name_state:
  "set_parameter_by_name env name val s = (r, s') \<Longrightarrow> s' = record_call (SetParameter name val) s"
  by (auto simp: set_parameter_by_name_def split: option.splits)

lemma print_stmt_state: "print_stmt env ev s = (r, s') \<Longrightarrow> s' = s\<lparr>trace := trace s @ [ev]\<rparr>"
  by (auto simp: print_stmt_def record_call_def split: option.splits)

lemma not_write_rounded: "write_target ev = None \<Longrightarrow> writes_rounded types dv ev"
  by (cases ev) (simp_all add: writes_rounded_def)

lemma report_Inr:
  assumes "report env e s = (Inr u, s')"
  shows "str_raises e = None \<and>
    s' = s\<lparr>trace := trace s @ [PrintMessage e, PrintRule, PrintExc e, PrintRule]\<rparr>"
  using assms
  by (auto simp: report_def print_stmt_def record_call_def split: option.splits)

lemma report_trace:
  assumes "report env e s = (r, s')"
  shows "\<exists>new. s' = s\<lparr>trace := trace s @ new\<rparr> \<and> list_all (\<lambda>ev. write_target ev = None) new"
proof -
  have "s' = s \<or> s' = s\<lparr>trace := trace s @ [PrintMessage e]\<rparr>
      \<or> s' = s\<lparr>trace := trace s @ [PrintMessage e, PrintRule]\<rparr>
      \<or> s' = s\<lparr>trace := trace s @ [PrintMessage e, PrintRule, PrintExc e]\<rparr>
      \<or> s' = s\<lparr>trace := trace s @ [PrintMessage e, PrintRule, PrintExc e, PrintRule]\<rparr>"
    using assms
    by (auto simp: report_def print_stmt_def record_call_def split: option.splits)
  then consider "s' = s\<lparr>trace := trace s @ []\<rparr>" | "s' = s\<lparr>trace := trace s @ [PrintMessage e]\<rparr>"
    | "s' = s\<lparr>trace := trace s @ [PrintMessage e, PrintRule]\<rparr>"
    | "s' = s\<lparr>trace := trace s @ [PrintMessage e, PrintRule, PrintExc e]\<rparr>"
    | "s' = s\<lparr>trace := trace s @ [PrintMessage e, PrintRule, PrintExc e, PrintRule]\<rparr>"
    by auto
  then show ?thesis
  proof cases
    case 1
    then show ?thesis by (intro exI [of _ "[]"]) simp
  next
    case 2
    then show ?thesis by (intro exI [of _ "[PrintMessage e]"]) simp
  next
    case 3
    then show ?thesis by (intro exI [of _ "[PrintMessage e, PrintRule]"]) simp
  next
    case 4
    then show ?thesis by (intro exI [of _ "[PrintMessage e, PrintRule, PrintExc e]"]) simp
  next
    case 5
    then show ?thesis
      by (intro exI [of _ "[PrintMessage e, PrintRule, PrintExc e, PrintRule]"]) simp
  qed
qed

lemma write_rounded_step:
  assumes "getitem dv name = Inr val" and "getitem types name = Inr t"
    and "(if t = ''i'' then int_round val else Inr val) = Inr val'"
  shows "writes_rounded types dv (SetParameter name val')"
  using assms by (auto simp: writes_rounded_def getitem_Inr int_round_nearest split: if_splits)

lemma set_parameters_trace:
  "set_parameters env types names dv s = (r, s') \<Longrightarrow>
   \<exists>new. s' = s\<lparr>trace := trace s @ new\<rparr> \<and> list_all (writes_rounded types dv) new
     \<and> (\<forall>u. r = Inr u \<longrightarrow> map write_target new = map Some names)"
proof (induction names arbitrary: s)
  case Nil
  then show ?case by (intro exI [of _ "[]"]) auto
next
  case (Cons name rest)
  show ?case
  proof (cases "getitem dv name")
    case (Inl e)
    with Cons.prems show ?thesis by (intro exI [of _ "[]"]) auto
  next
    case val: (Inr val)
    show ?thesis
    proof (cases "getitem types name")
      case (Inl e)
      with val Cons.prems show ?thesis by (intro exI [of _ "[]"]) auto
    next
      case t: (Inr t)
      show ?thesis
      proof (cases "if t = ''i'' then int_round val else Inr val")
        case (Inl e)
        with val t Cons.prems show ?thesis by (intro exI [of _ "[]"]) auto
      next
        case v': (Inr val')
        have w: "writes_rounded types dv (SetParameter name val')"
          using val t v' by (rule write_rounded_step)
        obtain r1 s1 where s1: "set_parameter_by_name env name val' s = (r1, s1)"
          by (cases "set_parameter_by_name env name val' s")
        have s1_eq: "s1 = s\<lparr>trace := trace s @ [SetParameter name val']\<rparr>"
          using set_parameter_by_name_state [OF s1] by (simp add: record_call_def)
        show ?thesis
        proof (cases r1)
          case (Inl e)
          with val t v' s1 Cons.prems have "r = Inl e" "s' = s1" by auto
          with w s1_eq show ?thesis
            by (intro exI [of _ "[SetParameter name val']"]) auto
        next
          case (Inr u)
          with val t v' s1 Cons.prems have "set_parameters env types rest dv s1 = (r, s')"
            by auto
          from Cons.IH [OF this] obtain new where
            new: "s' = s1\<lparr>trace := trace s1 @ new\<rparr>" "list_all (writes_rounded types dv) new"
              "\<forall>u. r = Inr u \<longrightarrow> map write_target new = map Some rest"
            by blast
          with w s1_eq show ?thesis
            by (intro exI [of _ "SetParameter name val' # new"]) auto
        qed
      qed
    qed
  qed
qed

lemma writes_rounded_int: "writes_rounded types dv ev \<Longrightarrow> writes_int types ev"
  by (auto simp: writes_rounded_def writes_int_def nearest_int_of_def
      split: event.splits option.splits if_splits sum.splits pyfloat.splits pyval.splits)

subsection \<open>The history: the last value set\<close>

lemma last_set_append:
  "last_set (xs @ ys) name = (case last_set ys name of Some v \<Rightarrow> Some v | None \<Rightarrow> last_set xs name)"
  by (induction xs) (auto split: option.splits)

lemma last_set_member: "last_set ws name = Some v \<Longrightarrow> SetParameter name v \<in> set ws"
  by (induction ws) (auto split: option.splits event.splits if_splits)

lemma last_set_target: "Some name \<in> set (map write_target ws) \<Longrightarrow> \<exists>v. last_set ws name = Some v"
proof (induction ws)
  case Nil
  then show ?case by simp
next
  case (Cons ev ws)
  show ?case
  proof (cases "last_set ws name")
    case (Some v)
    then show ?thesis by simp
  next
    case None
    with Cons have "write_target ev = Some name" by auto
    then obtain v where "ev = SetParameter name v" by (cases ev) auto
    with None show ?thesis by simp
  qed
qed

lemma last_set_writes:
  assumes "list_all P writes" and "name \<in> set names" and "map write_target writes = map Some names"
  shows "\<exists>v. last_set (pre @ writes @ [RunIteration]) name = Some v \<and> P (SetParameter name v)"
proof -
  have "Some name \<in> set (map write_target writes)" using assms(2,3) by simp
  from last_set_target [OF this] obtain v where v: "last_set writes name = Some v" by blast
  from last_set_member [OF v] assms(1) have "P (SetParameter name v)"
    by (simp add: list_all_iff)
  moreover have "last_set (pre @ writes @ [RunIteration]) name = Some v"
    using v by (simp add: last_set_append)
  ultimately show ?thesis by blast
qed

subsection \<open>The callbacks\<close>

lemma evaluate_objectives_keys:
  "evaluate_objectives env h os fd = (None, fd') \<Longrightarrow> distinct (map fst fd) \<Longrightarrow>
   distinct (map fst fd') \<and>
   set (map fst fd') = set (map fst fd) \<union> set (map (\<lambda>(key, obj). out0 (o_pcomp_name obj)) os)"
proof (induction os arbitrary: fd)
  case Nil
  then show ?case by simp
next
  case (Cons a os)
  obtain key obj where a: "a = (key, obj)" by (cases a)
  from Cons.prems(1) a obtain v where
    v: "objective_evaluate env h key = Inr v"
    and rest: "evaluate_objectives env h os (AList.update (out0 (o_pcomp_name obj)) (Array v) fd) = (None, fd')"
    by (auto split: sum.splits)
  have d: "distinct (map fst (AList.update (out0 (o_pcomp_name obj)) (Array v) fd))"
    using Cons.prems(2) by (rule AList.distinct_update)
  from Cons.IH [OF rest d] a show ?case
    by (auto simp: AList.dom_update)
qed

lemma evaluate_constraints_keys:
  "evaluate_constraints env h cs fd = (None, fd') \<Longrightarrow> distinct (map fst fd) \<Longrightarrow>
   distinct (map fst fd') \<and>
   set (map fst fd') = set (map fst fd) \<union> set (map (\<lambda>(key, con). out0 (c_pcomp_name con)) cs)"
proof (induction cs arbitrary: fd)
  case Nil
  then show ?case by simp
next
  case (Cons a cs)
  obtain key con where a: "a = (key, con)" by (cases a)
  from Cons.prems(1) a obtain v where
    v: "constraint_evaluate env h key = Inr v"
    and rest: "evaluate_constraints env h cs (AList.update (out0 (c_pcomp_name con)) (Array v) fd) = (None, fd')"
    by (auto split: sum.splits)
  have d: "distinct (map fst (AList.update (out0 (c_pcomp_name con)) (Array v) fd))"
    using Cons.prems(2) by (rule AList.distinct_update)
  from Cons.IH [OF rest d] a show ?case
    by (auto simp: AList.dom_update)
qed

lemma objfunc_try_keys:
  assumes "objfunc_try env dv s = ((None, fd), s')"
  shows "distinct (map fst fd) \<and> set (map fst fd) = set (output_names env)"
proof -
  from assms obtain s2 :: driver and fd1 where
    o: "evaluate_objectives env (trace s2) (get_objectives env) [] = (None, fd1)"
    and c: "evaluate_constraints env (trace s2) (get_constraints env None) fd1 = (None, fd)"
    by (auto simp: objfunc_try_def simp del: get_constraints.simps
        split: prod.splits sum.splits option.splits)
  from evaluate_objectives_keys [OF o] have
    1: "distinct (map fst fd1)"
       "set (map fst fd1) = set (map (\<lambda>(key, obj). out0 (o_pcomp_name obj)) (get_objectives env))"
    by simp_all
  from evaluate_constraints_keys [OF c 1(1)] 1(2) show ?thesis
    by (simp add: output_names_def)
qed

lemma objfunc_try_trace:
  assumes "objfunc_try env dv s = (x, s')"
  shows "\<exists>new. s' = s\<lparr>trace := trace s @ new\<rparr> \<and> list_all (writes_rounded (param_type s) dv) new"
proof -
  obtain r1 s1 where 1: "set_parameters env (param_type s) (map fst (get_parameters env)) dv s = (r1, s1)"
    by (cases "set_parameters env (param_type s) (map fst (get_parameters env)) dv s")
  from set_parameters_trace [OF 1] obtain new where
    new: "s1 = s\<lparr>trace := trace s @ new\<rparr>" "list_all (writes_rounded (param_type s) dv) new"
    by blast
  show ?thesis
  proof (cases r1)
    case (Inl e)
    with assms 1 have "s' = s1" by (auto simp: objfunc_try_def)
    with new show ?thesis by blast
  next
    case (Inr u)
    obtain r2 s2 where 2: "run_iteration env s1 = (r2, s2)"
      by (cases "run_iteration env s1")
    have s2: "s2 = s\<lparr>trace := trace s @ new @ [RunIteration]\<rparr>"
      using run_iteration_state [OF 2] new(1) by (simp add: record_call_def)
    from assms 1 2 Inr have "s' = s2"
      by (auto simp: objfunc_try_def split: sum.splits prod.splits option.splits)
    with s2 new(2) show ?thesis
      by (intro exI [of _ "new @ [RunIteration]"]) (simp add: writes_rounded_def)
  qed
qed

lemma objfunc_trace:
  assumes "objfunc env dv s = (r, s')"
  shows "\<exists>new. s' = s\<lparr>trace := trace s @ new\<rparr> \<and> list_all (writes_rounded (param_type s) dv) new"
proof -
  obtain x s1 where t: "objfunc_try env dv s = (x, s1)"
    by (cases "objfunc_try env dv s")
  from objfunc_try_trace [OF t] obtain new where
    new: "s1 = s\<lparr>trace := trace s @ new\<rparr>" "list_all (writes_rounded (param_type s) dv) new"
    by blast
  obtain ex fd where x: "x = (ex, fd)" by (cases x)
  show ?thesis
  proof (cases "\<exists>e. ex = Some e \<and> is_Exception e")
    case True
    then obtain e where e: "ex = Some e" "is_Exception e" by blast
    obtain r2 s2 where rp: "report env e s1 = (r2, s2)" by (cases "report env e s1")
    from report_trace [OF rp] obtain new2 where
      n2: "s2 = s1\<lparr>trace := trace s1 @ new2\<rparr>" "list_all (\<lambda>ev. write_target ev = None) new2"
      by blast
    have w2: "list_all (writes_rounded (param_type s) dv) new2"
      using n2(2) by (auto simp: list_all_iff intro: not_write_rounded)
    from assms t x e rp have "s' = s2" by (cases r2) (simp_all add: objfunc_def)
    with new n2(1) w2 show ?thesis
      by (intro exI [of _ "new @ new2"]) simp
  next
    case False
    with assms t x have "s' = s1" by (cases ex) (auto simp: objfunc_def)
    with new show ?thesis by blast
  qed
qed

lemma gradfunc_try_state:
  assumes "gradfunc_try env dv s = (x, s1)"
  shows "s1 = s\<lparr>trace := trace s @ []\<rparr> \<or>
    (\<exists>os ns. objs s = Some os \<and> nlcons s = Some ns \<and>
       x = calc_gradient_returns env (trace s) (map fst dv) (os @ ns) \<and>
       s1 = s\<lparr>trace := trace s @ [CalcGradient (map fst dv) (os @ ns)]\<rparr>)"
  using assms
  by (auto simp: gradfunc_try_def calc_gradient_def record_call_def split: option.splits)

lemma gradfunc_trace:
  assumes "gradfunc env dv fd s = (r, s')"
  shows "\<exists>new. s' = s\<lparr>trace := trace s @ new\<rparr> \<and> list_all (\<lambda>ev. write_target ev = None) new"
proof -
  obtain x s1 where t: "gradfunc_try env dv s = (x, s1)"
    by (cases "gradfunc_try env dv s")
  from gradfunc_try_state [OF t] obtain new1 where
    n1: "s1 = s\<lparr>trace := trace s @ new1\<rparr>" "list_all (\<lambda>ev. write_target ev = None) new1"
  proof
    assume "s1 = s\<lparr>trace := trace s @ []\<rparr>"
    then show ?thesis using that [of "[]"] by simp
  next
    assume "\<exists>os ns. objs s = Some os \<and> nlcons s = Some ns \<and>
       x = calc_gradient_returns env (trace s) (map fst dv) (os @ ns) \<and>
       s1 = s\<lparr>trace := trace s @ [CalcGradient (map fst dv) (os @ ns)]\<rparr>"
    then obtain os ns where "s1 = s\<lparr>trace := trace s @ [CalcGradient (map fst dv) (os @ ns)]\<rparr>"
      by blast
    then show ?thesis using that [of "[CalcGradient (map fst dv) (os @ ns)]"] by simp
  qed
  show ?thesis
  proof (cases "\<exists>e. x = Inl e \<and> is_Exception e")
    case True
    then obtain e where e: "x = Inl e" "is_Exception e" by blast
    obtain r2 s2 where rp: "report env e s1 = (r2, s2)" by (cases "report env e s1")
    from report_trace [OF rp] obtain new2 where
      n2: "s2 = s1\<lparr>trace := trace s1 @ new2\<rparr>" "list_all (\<lambda>ev. write_target ev = None) new2"
      by blast
    from assms t e rp have "s' = s2" by (cases r2) (simp_all add: gradfunc_def)
    with n1 n2 show ?thesis
      by (intro exI [of _ "new1 @ new2"]) simp
  next
    case False
    with assms t have "s' = s1" by (cases x) (auto simp: gradfunc_def)
    with n1 show ?thesis by blast
  qed
qed

lemma gradfunc_requests:
  assumes "objs s = Some os" and "nlcons s = Some ns"
  shows "\<exists>rest. trace (snd (gradfunc env dv fd s)) = trace s @ CalcGradient (map fst dv) (os @ ns) # rest"
proof -
  define s1 where "s1 = s\<lparr>trace := trace s @ [CalcGradient (map fst dv) (os @ ns)]\<rparr>"
  have t: "gradfunc_try env dv s = (calc_gradient_returns env (trace s) (map fst dv) (os @ ns), s1)"
    using assms by (simp add: gradfunc_try_def calc_gradient_def record_call_def s1_def)
  show ?thesis
  proof (cases "\<exists>e. calc_gradient_returns env (trace s) (map fst dv) (os @ ns) = Inl e \<and> is_Exception e")
    case True
    then obtain e where e: "calc_gradient_returns env (trace s) (map fst dv) (os @ ns) = Inl e"
      "is_Exception e" by blast
    obtain r2 s2 where rp: "report env e s1 = (r2, s2)" by (cases "report env e s1")
    from report_trace [OF rp] obtain new2 where n2: "s2 = s1\<lparr>trace := trace s1 @ new2\<rparr>"
      by blast
    from t e rp have "snd (gradfunc env dv fd s) = s2" by (cases r2) (simp_all add: gradfunc_def)
    with n2 show ?thesis by (intro exI [of _ new2]) (simp add: s1_def)
  next
    case False
    with t have "snd (gradfunc env dv fd s) = s1"
      by (cases "calc_gradient_returns env (trace s) (map fst dv) (os @ ns)")
        (auto simp: gradfunc_def)
    then show ?thesis by (intro exI [of _ "[]"]) (simp add: s1_def)
  qed
qed

lemma run_solver_trace:
  "run_solver run env g s = (r, s') \<Longrightarrow>
   \<exists>new. s' = s\<lparr>trace := trace s @ new\<rparr> \<and> list_all (writes_int (param_type s)) new"
proof (induction run arbitrary: s)
  case (Finish sol)
  then show ?case by (intro exI [of _ "[]"]) simp
next
  case (Crash e)
  then show ?case by (intro exI [of _ "[]"]) simp
next
  case (Probe dv k)
  obtain r1 s1 where o: "objfunc env dv s = (r1, s1)" by (cases "objfunc env dv s")
  from objfunc_trace [OF o] obtain new1 where
    n1: "s1 = s\<lparr>trace := trace s @ new1\<rparr>" "list_all (writes_rounded (param_type s) dv) new1"
    by blast
  have i1: "list_all (writes_int (param_type s)) new1"
    using n1(2) by (auto simp: list_all_iff intro: writes_rounded_int)
  from Probe.prems o have "run_solver (k r1) env g s1 = (r, s')" by simp
  from Probe.IH [OF _ this] obtain new2 where
    n2: "s' = s1\<lparr>trace := trace s1 @ new2\<rparr>" "list_all (writes_int (param_type s1)) new2"
    by blast
  have "param_type s1 = param_type s" by (subst n1(1)) simp
  with n1(1) n2 i1 show ?case
    by (intro exI [of _ "new1 @ new2"]) simp
next
  case (Sens dv fd k)
  show ?case
  proof (cases g)
    case True
    obtain r1 s1 where o: "gradfunc env dv fd s = (r1, s1)" by (cases "gradfunc env dv fd s")
    from gradfunc_trace [OF o] obtain new1 where
      n1: "s1 = s\<lparr>trace := trace s @ new1\<rparr>" "list_all (\<lambda>ev. write_target ev = None) new1"
      by blast
    have "\<And>ev. write_target ev = None \<Longrightarrow> writes_int (param_type s) ev"
      by (auto simp: writes_int_def split: event.splits)
    then have i1: "list_all (writes_int (param_type s)) new1"
      using n1(2) by (auto simp: list_all_iff)
    from Sens.prems o True have "run_solver (k r1) env g s1 = (r, s')" by simp
    from Sens.IH [OF _ this] obtain new2 where
      n2: "s' = s1\<lparr>trace := trace s1 @ new2\<rparr>" "list_all (writes_int (param_type s1)) new2"
      by blast
    have "param_type s1 = param_type s" by (subst n1(1)) simp
    with n1(1) n2 i1 show ?thesis
      by (intro exI [of _ "new1 @ new2"]) simp
  next
    case False
    with Sens.prems have "run_solver (k (Inl TypeError)) env g s = (r, s')" by simp
    from Sens.IH [OF _ this] show ?thesis by blast
  qed
qed

subsection \<open>Choosing the kind\<close>

text \<open>A choice set that is a list or a tuple makes the parameter discrete, whatever its value.\<close>

lemma vartype_choices_list:
  "map_of md ''values'' = Some (PyList c) \<Longrightarrow>
   vartype_choices name md (v # vs) = Inr (''d'', PyList c)"
  by (simp add: vartype_choices_def)

lemma vartype_choices_tuple:
  "map_of md ''values'' = Some (PyTuple c) \<Longrightarrow>
   vartype_choices name md (v # vs) = Inr (''d'', PyTuple c)"
  by (simp add: vartype_choices_def)

text \<open>Without a \<^verbatim>\<open>'values'\<close> entry the first value decides.\<close>

lemma vartype_choices_no_values:
  "map_of md ''values'' = None \<Longrightarrow> vartype_choices name md (v # vs) = vartype_of_value name v"
  by (simp add: vartype_choices_def)

subsection \<open>Building the problem\<close>

lemma add_parameters_state:
  "add_parameters ps prob pl s = (r, s') \<Longrightarrow> \<exists>types. s' = s\<lparr>param_type := types\<rparr>"
proof (induction ps arbitrary: prob pl s)
  case Nil
  then show ?case by (auto intro: exI [of _ "param_type s"])
next
  case (Cons a ps)
  obtain name p where a: "a = (name, p)" by (cases a)
  show ?case
  proof (cases "vartype_choices name (p_metadata p) (p_values p)")
    case (Inl e)
    with Cons.prems a show ?thesis by (auto intro: exI [of _ "param_type s"])
  next
    case (Inr tc)
    obtain t ch where tc: "tc = (t, ch)" by (cases tc)
    from Cons.prems a Inr tc have "add_parameters ps
       (addVarGroup \<lparr>vg_name = name, vg_nvars = length (p_values p), vg_type = t,
                vg_lower = p_low p, vg_upper = p_high p,
                vg_value = p_values p, vg_choices = ch\<rparr> prob)
       (pl @ [name]) (s\<lparr>param_type := AList.update name t (param_type s)\<rparr>) = (r, s')"
      by simp
    from Cons.IH [OF this] obtain types where
      "s' = s\<lparr>param_type := AList.update name t (param_type s)\<rparr>\<lparr>param_type := types\<rparr>"
      by blast
    then show ?thesis by (intro exI [of _ types]) simp
  qed
qed

lemma add_parameters_result:
  "add_parameters ps prob pl s = (Inr (prob', pl'), s') \<Longrightarrow>
   pl' = pl @ map fst ps \<and> (\<exists>types. s' = s\<lparr>param_type := types\<rparr>) \<and>
   op_title prob' = op_title prob \<and> op_objectives prob' = op_objectives prob \<and>
   op_constraints prob' = op_constraints prob \<and>
   (\<exists>gs. op_variables prob' = op_variables prob @ gs \<and>
      list_all2 (\<lambda>(name, p) g.
         vartype_choices name (p_metadata p) (p_values p) = Inr (vg_type g, vg_choices g) \<and>
         g = \<lparr>vg_name = name, vg_nvars = length (p_values p), vg_type = vg_type g,
              vg_lower = p_low p, vg_upper = p_high p, vg_value = p_values p,
              vg_choices = vg_choices g\<rparr>) ps gs)"
proof (induction ps arbitrary: prob pl s)
  case Nil
  then show ?case by (auto intro: exI [of _ "param_type s"])
next
  case (Cons a ps)
  obtain name p where a: "a = (name, p)" by (cases a)
  from Cons.prems a obtain t ch where
    v: "vartype_choices name (p_metadata p) (p_values p) = Inr (t, ch)"
    and rest: "add_parameters ps
       (addVarGroup \<lparr>vg_name = name, vg_nvars = length (p_values p), vg_type = t,
                vg_lower = p_low p, vg_upper = p_high p,
                vg_value = p_values p, vg_choices = ch\<rparr> prob)
       (pl @ [name]) (s\<lparr>param_type := AList.update name t (param_type s)\<rparr>) = (Inr (prob', pl'), s')"
    by (auto split: sum.splits prod.splits)
  from Cons.IH [OF rest] obtain gs types where
    ih: "pl' = (pl @ [name]) @ map fst ps"
      "s' = s\<lparr>param_type := AList.update name t (param_type s)\<rparr>\<lparr>param_type := types\<rparr>"
      "op_title prob' = op_title prob" "op_objectives prob' = op_objectives prob"
      "op_constraints prob' = op_constraints prob"
      "op_variables prob' = (op_variables prob @ [\<lparr>vg_name = name, vg_nvars = length (p_values p), vg_type = t,
                vg_lower = p_low p, vg_upper = p_high p,
                vg_value = p_values p, vg_choices = ch\<rparr>]) @ gs"
      "list_all2 (\<lambda>(name, p) g.
         vartype_choices name (p_metadata p) (p_values p) = Inr (vg_type g, vg_choices g) \<and>
         g = \<lparr>vg_name = name, vg_nvars = length (p_values p), vg_type = vg_type g,
              vg_lower = p_low p, vg_upper = p_high p, vg_value = p_values p,
              vg_choices = vg_choices g\<rparr>) ps gs"
    by (auto simp: addVarGroup_def)
  show ?case
    apply (intro conjI)
    using ih(1) a apply simp
    using ih(2) apply (intro exI [of _ types]) apply simp
    using ih(3) apply simp
    using ih(4) apply simp
    using ih(5) apply simp
    apply (rule exI [of _ "\<lparr>vg_name = name, vg_nvars = length (p_values p), vg_type = t,
                vg_lower = p_low p, vg_upper = p_high p,
                vg_value = p_values p, vg_choices = ch\<rparr> # gs"])
    using ih(6,7) a v apply simp
    done
qed

lemma add_objectives_result:
  "op_title (add_objectives os prob) = op_title prob \<and>
   op_variables (add_objectives os prob) = op_variables prob \<and>
   op_constraints (add_objectives os prob) = op_constraints prob \<and>
   op_objectives (add_objectives os prob) =
     op_objectives prob @ map (\<lambda>(key, obj). out0 (o_pcomp_name obj)) os"
  by (induction os arbitrary: prob) (auto simp: addObj_def)

lemma save_lin_jacs_result:
  assumes "save_lin_jacs env pl s = (Inr u, s')"
  shows "(linear_names env = [] \<and> s' = s) \<or>
         (linear_names env \<noteq> [] \<and>
          calc_gradient_returns env (trace s) pl (linear_names env) = Inr (lin_jacs s') \<and>
          s' = s\<lparr>lin_jacs := lin_jacs s', trace := trace s @ [CalcGradient pl (linear_names env)]\<rparr>)"
  using assms
  by (auto simp: save_lin_jacs_def linear_names_def calc_gradient_def record_call_def Let_def
      split: if_splits sum.splits prod.splits)

lemma save_lin_jacs_trace:
  assumes "save_lin_jacs env pl s = (r, s')"
  shows "\<exists>new. trace s' = trace s @ new \<and> list_all (\<lambda>ev. write_target ev = None) new"
proof (cases "length (get_constraints env (Some True)) > 0")
  case False
  with assms have "s' = s" by (simp add: save_lin_jacs_def Let_def)
  then show ?thesis by (intro exI [of _ "[]"]) simp
next
  case True
  define outs where "outs = map (\<lambda>(key, obj). out0 (c_pcomp_name obj)) (get_constraints env (Some True))"
  from assms True have "trace s' = trace s @ [CalcGradient pl outs]"
    by (auto simp: save_lin_jacs_def Let_def calc_gradient_def record_call_def outs_def
        simp del: get_constraints.simps split: sum.splits)
  then show ?thesis by (intro exI [of _ "[CalcGradient pl outs]"]) simp
qed

lemma add_eq_constraints_result:
  "add_eq_constraints cs pl jacs prob nl = Inr (prob', nl') \<Longrightarrow>
   nl' = nl @ map (\<lambda>(key, con). out0 (c_pcomp_name con)) (filter (\<lambda>(key, con). \<not> c_linear con) cs) \<and>
   op_title prob' = op_title prob \<and> op_objectives prob' = op_objectives prob \<and>
   op_variables prob' = op_variables prob \<and>
   (\<exists>gs. op_constraints prob' = op_constraints prob @ gs \<and>
      list_all2 (\<lambda>(key, con) g. zero_bounds True con g \<and> jacobian_supplied pl jacs con g) cs gs)"
proof (induction cs arbitrary: prob nl)
  case Nil
  then show ?case by simp
next
  case (Cons a cs)
  obtain key con where a: "a = (key, con)" by (cases a)
  define name where "name = out0 (c_pcomp_name con)"
  show ?case
  proof (cases "c_linear con")
    case True
    with Cons.prems a obtain jac where
      jac: "map_of jacs name = Some jac"
      and rest: "add_eq_constraints cs pl jacs
         (addConGroup \<lparr>cg_name = name, cg_ncon = c_size con, cg_lower = Some (zeros (c_size con)),
            cg_upper = Some (zeros (c_size con)), cg_linear = True, cg_wrt = Some pl,
            cg_jac = Some jac\<rparr> prob) nl = Inr (prob', nl')"
      by (auto simp: Let_def name_def getitem_Inr split: sum.splits)
    from Cons.IH [OF rest] obtain gs where
      ih: "nl' = nl @ map (\<lambda>(key, con). out0 (c_pcomp_name con)) (filter (\<lambda>(key, con). \<not> c_linear con) cs)"
        "op_title prob' = op_title prob" "op_objectives prob' = op_objectives prob"
        "op_variables prob' = op_variables prob"
        "op_constraints prob' = (op_constraints prob @ [\<lparr>cg_name = name, cg_ncon = c_size con, cg_lower = Some (zeros (c_size con)),
            cg_upper = Some (zeros (c_size con)), cg_linear = True, cg_wrt = Some pl,
            cg_jac = Some jac\<rparr>]) @ gs"
        "list_all2 (\<lambda>(key, con) g. zero_bounds True con g \<and> jacobian_supplied pl jacs con g) cs gs"
      by (auto simp: addConGroup_def)
    show ?thesis
      apply (intro conjI)
      using ih(1) a True apply simp
      using ih(2) apply simp
      using ih(3) apply simp
      using ih(4) apply simp
      apply (rule exI [of _ "\<lparr>cg_name = name, cg_ncon = c_size con, cg_lower = Some (zeros (c_size con)),
            cg_upper = Some (zeros (c_size con)), cg_linear = True, cg_wrt = Some pl,
            cg_jac = Some jac\<rparr> # gs"])
      using ih(5,6) a True jac apply (simp add: zero_bounds_def jacobian_supplied_def name_def)
      done
  next
    case False
    with Cons.prems a have
      rest: "add_eq_constraints cs pl jacs
         (addConGroup \<lparr>cg_name = name, cg_ncon = c_size con, cg_lower = Some (zeros (c_size con)),
            cg_upper = Some (zeros (c_size con)), cg_linear = False, cg_wrt = None,
            cg_jac = None\<rparr> prob) (nl @ [name]) = Inr (prob', nl')"
      by (auto simp: Let_def name_def)
    from Cons.IH [OF rest] obtain gs where
      ih: "nl' = (nl @ [name]) @ map (\<lambda>(key, con). out0 (c_pcomp_name con)) (filter (\<lambda>(key, con). \<not> c_linear con) cs)"
        "op_title prob' = op_title prob" "op_objectives prob' = op_objectives prob"
        "op_variables prob' = op_variables prob"
        "op_constraints prob' = (op_constraints prob @ [\<lparr>cg_name = name, cg_ncon = c_size con, cg_lower = Some (zeros (c_size con)),
            cg_upper = Some (zeros (c_size con)), cg_linear = False, cg_wrt = None,
            cg_jac = None\<rparr>]) @ gs"
        "list_all2 (\<lambda>(key, con) g. zero_bounds True con g \<and> jacobian_supplied pl jacs con g) cs gs"
      by (auto simp: addConGroup_def)
    show ?thesis
      apply (intro conjI)
      using ih(1) a False apply (simp add: name_def)
      using ih(2) apply simp
      using ih(3) apply simp
      using ih(4) apply simp
      apply (rule exI [of _ "\<lparr>cg_name = name, cg_ncon = c_size con, cg_lower = Some (zeros (c_size con)),
            cg_upper = Some (zeros (c_size con)), cg_linear = False, cg_wrt = None,
            cg_jac = None\<rparr> # gs"])
      using ih(5,6) a False apply (simp add: zero_bounds_def jacobian_supplied_def name_def)
      done
  qed
qed

lemma add_ineq_constraints_result:
  "add_ineq_constraints cs pl jacs prob nl = Inr (prob', nl') \<Longrightarrow>
   nl' = nl @ map (\<lambda>(key, con). out0 (c_pcomp_name con)) (filter (\<lambda>(key, con). \<not> c_linear con) cs) \<and>
   op_title prob' = op_title prob \<and> op_objectives prob' = op_objectives prob \<and>
   op_variables prob' = op_variables prob \<and>
   (\<exists>gs. op_constraints prob' = op_constraints prob @ gs \<and>
      list_all2 (\<lambda>(key, con) g. zero_bounds False con g \<and> jacobian_supplied pl jacs con g) cs gs)"
proof (induction cs arbitrary: prob nl)
  case Nil
  then show ?case by simp
next
  case (Cons a cs)
  obtain key con where a: "a = (key, con)" by (cases a)
  define name where "name = out0 (c_pcomp_name con)"
  show ?case
  proof (cases "c_linear con")
    case True
    with Cons.prems a obtain jac where
      jac: "map_of jacs name = Some jac"
      and rest: "add_ineq_constraints cs pl jacs
         (addConGroup \<lparr>cg_name = name, cg_ncon = c_size con, cg_lower = None,
            cg_upper = Some (zeros (c_size con)), cg_linear = True, cg_wrt = Some pl,
            cg_jac = Some jac\<rparr> prob) nl = Inr (prob', nl')"
      by (auto simp: Let_def name_def getitem_Inr split: sum.splits)
    from Cons.IH [OF rest] obtain gs where
      ih: "nl' = nl @ map (\<lambda>(key, con). out0 (c_pcomp_name con)) (filter (\<lambda>(key, con). \<not> c_linear con) cs)"
        "op_title prob' = op_title prob" "op_objectives prob' = op_objectives prob"
        "op_variables prob' = op_variables prob"
        "op_constraints prob' = (op_constraints prob @ [\<lparr>cg_name = name, cg_ncon = c_size con, cg_lower = None,
            cg_upper = Some (zeros (c_size con)), cg_linear = True, cg_wrt = Some pl,
            cg_jac = Some jac\<rparr>]) @ gs"
        "list_all2 (\<lambda>(key, con) g. zero_bounds False con g \<and> jacobian_supplied pl jacs con g) cs gs"
      by (auto simp: addConGroup_def)
    show ?thesis
      apply (intro conjI)
      using ih(1) a True apply simp
      using ih(2) apply simp
      using ih(3) apply simp
      using ih(4) apply simp
      apply (rule exI [of _ "\<lparr>cg_name = name, cg_ncon = c_size con, cg_lower = None,
            cg_upper = Some (zeros (c_size con)), cg_linear = True, cg_wrt = Some pl,
            cg_jac = Some jac\<rparr> # gs"])
      using ih(5,6) a True jac apply (simp add: zero_bounds_def jacobian_supplied_def name_def)
      done
  next
    case False
    with Cons.prems a have
      rest: "add_ineq_constraints cs pl jacs
         (addConGroup \<lparr>cg_name = name, cg_ncon = c_size con, cg_lower = None,
            cg_upper = Some (zeros (c_size con)), cg_linear = False, cg_wrt = None,
            cg_jac = None\<rparr> prob) (nl @ [name]) = Inr (prob', nl')"
      by (auto simp: Let_def name_def)
    from Cons.IH [OF rest] obtain gs where
      ih: "nl' = (nl @ [name]) @ map (\<lambda>(key, con). out0 (c_pcomp_name con)) (filter (\<lambda>(key, con). \<not> c_linear con) cs)"
        "op_title prob' = op_title prob" "op_objectives prob' = op_objectives prob"
        "op_variables prob' = op_variables prob"
        "op_constraints prob' = (op_constraints prob @ [\<lparr>cg_name = name, cg_ncon = c_size con, cg_lower = None,
            cg_upper = Some (zeros (c_size con)), cg_linear = False, cg_wrt = None,
            cg_jac = None\<rparr>]) @ gs"
        "list_all2 (\<lambda>(key, con) g. zero_bounds False con g \<and> jacobian_supplied pl jacs con g) cs gs"
      by (auto simp: addConGroup_def)
    show ?thesis
      apply (intro conjI)
      using ih(1) a False apply (simp add: name_def)
      using ih(2) apply simp
      using ih(3) apply simp
      using ih(4) apply simp
      apply (rule exI [of _ "\<lparr>cg_name = name, cg_ncon = c_size con, cg_lower = None,
            cg_upper = Some (zeros (c_size con)), cg_linear = False, cg_wrt = None,
            cg_jac = None\<rparr> # gs"])
      using ih(5,6) a False apply (simp add: zero_bounds_def jacobian_supplied_def name_def)
      done
  qed
qed

lemma build_problem_Inr:
  assumes "build_problem env s = (Inr prob, s')"
  shows "\<exists>s1 prob1 pl s2 s3 prob2 nl1 nl2.
    run_iteration env (s\<lparr>pyOpt_solution := None\<rparr>) = (Inr (), s1) \<and>
    add_parameters (get_parameters env) (Optimization (title s1)) []
       (s1\<lparr>param_type := [], nparam := Some (total_parameters env)\<rparr>) = (Inr (prob1, pl), s2) \<and>
    save_lin_jacs env pl s2 = (Inr (), s3) \<and>
    add_eq_constraints (get_eq_constraints env) pl (lin_jacs s3)
       (add_objectives (get_objectives env) prob1) [] = Inr (prob2, nl1) \<and>
    add_ineq_constraints (get_ineq_constraints env) pl (lin_jacs s3) prob2 nl1 = Inr (prob, nl2) \<and>
    s' = s3\<lparr>objs := Some (list_objective_targets env), nlcons := Some nl2\<rparr>"
  using assms unfolding build_problem_def
  by (auto split: prod.splits sum.splits)

lemma build_problem_trace:
  assumes "build_problem env s = (Inr prob, s')"
  shows "trace s' = trace s @ RunIteration #
           (if linear_names env = [] then []
            else [CalcGradient (map fst (get_parameters env)) (linear_names env)])
       \<and> (linear_names env \<noteq> [] \<longrightarrow>
            calc_gradient_returns env (trace s @ [RunIteration]) (map fst (get_parameters env))
              (linear_names env) = Inr (lin_jacs s'))
       \<and> optimizer s' = optimizer s \<and> options s' = options s \<and> pyopt_diff s' = pyopt_diff s
       \<and> print_results s' = print_results s
       \<and> objs s' = Some (list_objective_targets env) \<and> nlcons s' = Some (nonlinear_names env)"
proof -
  from build_problem_Inr [OF assms] obtain s1 prob1 pl s2 s3 prob2 nl1 nl2 where
    1: "run_iteration env (s\<lparr>pyOpt_solution := None\<rparr>) = (Inr (), s1)"
    and 2: "add_parameters (get_parameters env) (Optimization (title s1)) []
       (s1\<lparr>param_type := [], nparam := Some (total_parameters env)\<rparr>) = (Inr (prob1, pl), s2)"
    and 3: "save_lin_jacs env pl s2 = (Inr (), s3)"
    and 4: "add_eq_constraints (get_eq_constraints env) pl (lin_jacs s3)
       (add_objectives (get_objectives env) prob1) [] = Inr (prob2, nl1)"
    and 5: "add_ineq_constraints (get_ineq_constraints env) pl (lin_jacs s3) prob2 nl1 = Inr (prob, nl2)"
    and 6: "s' = s3\<lparr>objs := Some (list_objective_targets env), nlcons := Some nl2\<rparr>"
    by blast
  have s1: "s1 = s\<lparr>pyOpt_solution := None, trace := trace s @ [RunIteration]\<rparr>"
    using run_iteration_state [OF 1] by (simp add: record_call_def)
  from add_parameters_result [OF 2] obtain types where
    pl: "pl = map fst (get_parameters env)"
    and s2: "s2 = s1\<lparr>param_type := [], nparam := Some (total_parameters env)\<rparr>\<lparr>param_type := types\<rparr>"
    by auto
  have nl: "nl2 = nonlinear_names env"
    using add_eq_constraints_result [OF 4] add_ineq_constraints_result [OF 5]
    by (simp add: nonlinear_names_def)
  from save_lin_jacs_result [OF 3] show ?thesis
  proof
    assume "linear_names env = [] \<and> s3 = s2"
    with s1 s2 6 nl show ?thesis by simp
  next
    assume a: "linear_names env \<noteq> [] \<and>
          calc_gradient_returns env (trace s2) pl (linear_names env) = Inr (lin_jacs s3) \<and>
          s3 = s2\<lparr>lin_jacs := lin_jacs s3, trace := trace s2 @ [CalcGradient pl (linear_names env)]\<rparr>"
    then have s3: "s3 = s2\<lparr>lin_jacs := lin_jacs s3, trace := trace s2 @ [CalcGradient pl (linear_names env)]\<rparr>"
      by blast
    have t2: "trace s2 = trace s @ [RunIteration]" using s1 s2 by simp
    have t3: "trace s3 = trace s2 @ [CalcGradient pl (linear_names env)]"
      by (subst s3) simp
    have f3: "optimizer s3 = optimizer s2" "options s3 = options s2"
      "pyopt_diff s3 = pyopt_diff s2" "print_results s3 = print_results s2"
      by (subst s3, simp)+
    have "trace s' = trace s @ [RunIteration] @ [CalcGradient pl (linear_names env)]"
      using 6 t2 t3 by simp
    moreover have "lin_jacs s' = lin_jacs s3" using 6 by simp
    moreover have "optimizer s' = optimizer s \<and> options s' = options s \<and> pyopt_diff s' = pyopt_diff s
       \<and> print_results s' = print_results s"
      using 6 s1 s2 f3 by simp
    ultimately show ?thesis using a t2 pl 6 nl by simp
  qed
qed

lemma build_problem_groups:
  assumes "build_problem env s = (Inr prob, s')"
  shows "\<exists>vs gs hs. op_variables prob = vs \<and> op_constraints prob = gs @ hs \<and>
     op_objectives prob = map (\<lambda>(key, obj). out0 (o_pcomp_name obj)) (get_objectives env) \<and>
     list_all2 (\<lambda>(name, p) g.
         vartype_choices name (p_metadata p) (p_values p) = Inr (vg_type g, vg_choices g) \<and>
         g = \<lparr>vg_name = name, vg_nvars = length (p_values p), vg_type = vg_type g,
              vg_lower = p_low p, vg_upper = p_high p, vg_value = p_values p,
              vg_choices = vg_choices g\<rparr>) (get_parameters env) vs \<and>
     list_all2 (\<lambda>(key, con) g. zero_bounds True con g \<and>
         jacobian_supplied (map fst (get_parameters env)) (lin_jacs s') con g)
       (get_eq_constraints env) gs \<and>
     list_all2 (\<lambda>(key, con) g. zero_bounds False con g \<and>
         jacobian_supplied (map fst (get_parameters env)) (lin_jacs s') con g)
       (get_ineq_constraints env) hs"
proof -
  from build_problem_Inr [OF assms] obtain s1 prob1 pl s2 s3 prob2 nl1 nl2 where
    2: "add_parameters (get_parameters env) (Optimization (title s1)) []
       (s1\<lparr>param_type := [], nparam := Some (total_parameters env)\<rparr>) = (Inr (prob1, pl), s2)"
    and 4: "add_eq_constraints (get_eq_constraints env) pl (lin_jacs s3)
       (add_objectives (get_objectives env) prob1) [] = Inr (prob2, nl1)"
    and 5: "add_ineq_constraints (get_ineq_constraints env) pl (lin_jacs s3) prob2 nl1 = Inr (prob, nl2)"
    and 6: "s' = s3\<lparr>objs := Some (list_objective_targets env), nlcons := Some nl2\<rparr>"
    by blast
  have j: "lin_jacs s3 = lin_jacs s'" using 6 by simp
  from add_parameters_result [OF 2] obtain vs where
    pl: "pl = map fst (get_parameters env)"
    and p1: "op_objectives prob1 = []" "op_constraints prob1 = []" "op_variables prob1 = vs"
    and vs: "list_all2 (\<lambda>(name, p) g.
         vartype_choices name (p_metadata p) (p_values p) = Inr (vg_type g, vg_choices g) \<and>
         g = \<lparr>vg_name = name, vg_nvars = length (p_values p), vg_type = vg_type g,
              vg_lower = p_low p, vg_upper = p_high p, vg_value = p_values p,
              vg_choices = vg_choices g\<rparr>) (get_parameters env) vs"
    by (auto simp: Optimization_def)
  from add_eq_constraints_result [OF 4] obtain gs where
    p2: "op_objectives prob2 = map (\<lambda>(key, obj). out0 (o_pcomp_name obj)) (get_objectives env)"
      "op_variables prob2 = vs" "op_constraints prob2 = gs"
    and gs: "list_all2 (\<lambda>(key, con) g. zero_bounds True con g \<and> jacobian_supplied pl (lin_jacs s3) con g)
       (get_eq_constraints env) gs"
    using p1 by (auto simp: add_objectives_result)
  from add_ineq_constraints_result [OF 5] obtain hs where
    p3: "op_objectives prob = op_objectives prob2" "op_variables prob = op_variables prob2"
      "op_constraints prob = op_constraints prob2 @ hs"
    and hs: "list_all2 (\<lambda>(key, con) g. zero_bounds False con g \<and> jacobian_supplied pl (lin_jacs s3) con g)
       (get_ineq_constraints env) hs"
    by auto
  show ?thesis
    using p2 p3 vs gs hs unfolding pl j
    by (intro exI [of _ vs] exI [of _ gs] exI [of _ hs]) simp
qed

lemma nonlinear_groups:
  "list_all2 (\<lambda>(key, con) g. jacobian_supplied pl jacs con g) cs gs \<Longrightarrow>
   map cg_name (filter (\<lambda>g. \<not> cg_linear g) gs) =
   map (\<lambda>(key, con). out0 (c_pcomp_name con)) (filter (\<lambda>(key, con). \<not> c_linear con) cs)"
  by (induction rule: list_all2_induct) (auto simp: jacobian_supplied_def split: if_splits)

lemma build_problem_outputs:
  assumes "build_problem env s = (Inr prob, s')"
  shows "op_objectives prob = map (\<lambda>(key, obj). out0 (o_pcomp_name obj)) (get_objectives env)"
    and "map cg_name (filter (\<lambda>g. \<not> cg_linear g) (op_constraints prob)) = nonlinear_names env"
proof -
  from build_problem_groups [OF assms] obtain gs hs where
    c: "op_constraints prob = gs @ hs"
    and o: "op_objectives prob = map (\<lambda>(key, obj). out0 (o_pcomp_name obj)) (get_objectives env)"
    and gs: "list_all2 (\<lambda>(key, con) g. zero_bounds True con g \<and>
         jacobian_supplied (map fst (get_parameters env)) (lin_jacs s') con g)
       (get_eq_constraints env) gs"
    and hs: "list_all2 (\<lambda>(key, con) g. zero_bounds False con g \<and>
         jacobian_supplied (map fst (get_parameters env)) (lin_jacs s') con g)
       (get_ineq_constraints env) hs"
    by blast
  have g1: "list_all2 (\<lambda>(key, con) g. jacobian_supplied (map fst (get_parameters env)) (lin_jacs s') con g)
      (get_eq_constraints env) gs"
    using gs by (rule list_all2_mono) auto
  have g2: "list_all2 (\<lambda>(key, con) g. jacobian_supplied (map fst (get_parameters env)) (lin_jacs s') con g)
      (get_ineq_constraints env) hs"
    using hs by (rule list_all2_mono) auto
  show "op_objectives prob = map (\<lambda>(key, obj). out0 (o_pcomp_name obj)) (get_objectives env)"
    by (rule o)
  show "map cg_name (filter (\<lambda>g. \<not> cg_linear g) (op_constraints prob)) = nonlinear_names env"
    unfolding c using nonlinear_groups [OF g1] nonlinear_groups [OF g2]
    by (simp add: nonlinear_names_def)
qed

lemma build_problem_no_writes:
  assumes "build_problem env s = (r, s')"
  shows "\<exists>new. trace s' = trace s @ new \<and> list_all (\<lambda>ev. write_target ev = None) new"
proof -
  obtain r1 s1 where 1: "run_iteration env (s\<lparr>pyOpt_solution := None\<rparr>) = (r1, s1)"
    by (cases "run_iteration env (s\<lparr>pyOpt_solution := None\<rparr>)")
  have t1: "trace s1 = trace s @ [RunIteration]"
    using run_iteration_state [OF 1] by (simp add: record_call_def)
  show ?thesis
  proof (cases r1)
    case (Inl e)
    with assms 1 have "s' = s1" by (simp add: build_problem_def)
    with t1 show ?thesis by (intro exI [of _ "[RunIteration]"]) simp
  next
    case u1: (Inr u1)
    obtain r2 s2 where 2: "add_parameters (get_parameters env) (Optimization (title s1)) []
                  (s1\<lparr>param_type := [], nparam := Some (total_parameters env)\<rparr>) = (r2, s2)"
      by (cases "add_parameters (get_parameters env) (Optimization (title s1)) []
                  (s1\<lparr>param_type := [], nparam := Some (total_parameters env)\<rparr>)")
    from add_parameters_state [OF 2] have t2: "trace s2 = trace s @ [RunIteration]"
      using t1 by auto
    show ?thesis
    proof (cases r2)
      case (Inl e)
      with assms 1 u1 2 have "s' = s2" by (simp add: build_problem_def)
      with t2 show ?thesis by (intro exI [of _ "[RunIteration]"]) simp
    next
      case u2: (Inr pp)
      obtain prob1 pl where pp: "pp = (prob1, pl)" by (cases pp)
      obtain r3 s3 where 3: "save_lin_jacs env pl s2 = (r3, s3)"
        by (cases "save_lin_jacs env pl s2")
      from save_lin_jacs_trace [OF 3] obtain new where
        new: "trace s3 = trace s2 @ new" "list_all (\<lambda>ev. write_target ev = None) new"
        by blast
      from assms 1 u1 2 u2 pp 3 have "trace s' = trace s3"
        by (auto simp: build_problem_def split: sum.splits prod.splits)
      with new t2 show ?thesis by (intro exI [of _ "RunIteration # new"]) simp
    qed
  qed
qed

subsection \<open>Running the optimizer and pulling the optimum back\<close>

lemma set_options_state:
  "set_options opts s = s\<lparr>trace := trace s @ map (\<lambda>(option, val). SetOption option val) opts\<rparr>"
  by (induction opts arbitrary: s) (auto simp: record_call_def)

lemma run_optimizer_trace:
  assumes "run_optimizer env prob s = (r, s')"
  shows "\<exists>new. s' = s\<lparr>trace := trace s @ new\<rparr> \<and> list_all (writes_int (param_type s)) new"
proof (cases "importable env (optimizer s)")
  case False
  with assms have "s' = s\<lparr>trace := trace s @ [Import (optimizer s)]\<rparr>"
    by (simp add: run_optimizer_def Let_def record_call_def)
  then show ?thesis by (intro exI [of _ "[Import (optimizer s)]"]) (simp add: writes_int_def)
next
  case True
  define pre where "pre = Import (optimizer s) # Instantiate (optimizer s) #
      map (\<lambda>(option, val). SetOption option val) (options s) @ [CallSolver]"
  define s2 where "s2 = s\<lparr>trace := trace s @ pre\<rparr>"
  have s2: "record_call CallSolver (set_options (options (record_call (Import (optimizer s)) s))
       (record_call (Instantiate (optimizer s)) (record_call (Import (optimizer s)) s))) = s2"
    by (simp add: set_options_state record_call_def s2_def pre_def)
  have f: "options s2 = options s" "pyopt_diff s2 = pyopt_diff s" "param_type s2 = param_type s"
    "trace s2 = trace s @ pre"
    by (simp_all add: s2_def)
  have p: "list_all (writes_int (param_type s)) pre"
    by (simp add: pre_def writes_int_def list_all_iff split_def image_iff)
  obtain r3 s3 where 3: "run_solver (optimizer_run env (optimizer s) (options s) prob
       (if pyopt_diff s then SensFD (fd_step env) else SensGradfunc)) env (\<not> pyopt_diff s) s2 = (r3, s3)"
    by (metis prod.collapse)
  from run_solver_trace [OF 3] obtain new where
    new: "s3 = s2\<lparr>trace := trace s2 @ new\<rparr>" "list_all (writes_int (param_type s2)) new"
    by blast
  have s3: "s3 = s\<lparr>trace := trace s @ pre @ new\<rparr>"
    using new(1) by (simp add: s2_def)
  have "s' = s3 \<or> s' = s3\<lparr>trace := trace s3 @ [PrintSolution]\<rparr>"
    using assms True 3 s2
    by (auto simp: run_optimizer_def Let_def set_options_state record_call_def s2_def pre_def
        dest: print_stmt_state split: sum.splits if_splits prod.splits)
  then show ?thesis
  proof
    assume "s' = s3"
    with s3 new(2) p f show ?thesis by (intro exI [of _ "pre @ new"]) simp
  next
    assume "s' = s3\<lparr>trace := trace s3 @ [PrintSolution]\<rparr>"
    with s3 new(2) p f show ?thesis
      by (intro exI [of _ "pre @ new @ [PrintSolution]"]) (simp add: writes_int_def)
  qed
qed

lemma pull_optimum_trace:
  assumes "pull_optimum env sol s = (r, s')"
  shows "param_type s' = param_type s \<and>
    (\<exists>new. trace s' = trace s @ new \<and> list_all (writes_rounded (param_type s) (sol_dvs sol)) new)"
proof -
  obtain r1 s1 where 1: "set_parameters env (param_type s) (map fst (get_parameters env)) (sol_dvs sol) s = (r1, s1)"
    by (cases "set_parameters env (param_type s) (map fst (get_parameters env)) (sol_dvs sol) s")
  from set_parameters_trace [OF 1] obtain new where
    new: "s1 = s\<lparr>trace := trace s @ new\<rparr>" "list_all (writes_rounded (param_type s) (sol_dvs sol)) new"
    by blast
  show ?thesis
  proof (cases r1)
    case (Inl e)
    with assms 1 have "s' = s1" by (simp add: pull_optimum_def)
    with new show ?thesis by simp
  next
    case (Inr u)
    obtain r2 s2 where 2: "run_iteration env s1 = (r2, s2)" by (cases "run_iteration env s1")
    have s2: "s2 = s\<lparr>trace := trace s @ new @ [RunIteration]\<rparr>"
      using run_iteration_state [OF 2] new(1) by (simp add: record_call_def)
    from assms 1 2 Inr have "s' = s2 \<or> s' = s2\<lparr>pyOpt_solution := Some sol\<rparr>"
      by (cases r2) (auto simp: pull_optimum_def)
    with s2 have "param_type s' = param_type s" "trace s' = trace s @ new @ [RunIteration]"
      by auto
    moreover have "list_all (writes_rounded (param_type s) (sol_dvs sol)) (new @ [RunIteration])"
      using new(2) by (simp add: writes_rounded_def)
    ultimately show ?thesis by blast
  qed
qed

lemma pull_optimum_Inr:
  assumes "pull_optimum env sol s = (Inr u, s')"
  shows "\<exists>writes. s' = s\<lparr>pyOpt_solution := Some sol, trace := trace s @ writes @ [RunIteration]\<rparr> \<and>
     map write_target writes = map Some (map fst (get_parameters env)) \<and>
     list_all (writes_rounded (param_type s) (sol_dvs sol)) writes"
proof -
  from assms obtain s1 s2 where
    1: "set_parameters env (param_type s) (map fst (get_parameters env)) (sol_dvs sol) s = (Inr (), s1)"
    and 2: "run_iteration env s1 = (Inr (), s2)"
    and 3: "s' = s2\<lparr>pyOpt_solution := Some sol\<rparr>"
    by (auto simp: pull_optimum_def split: prod.splits sum.splits)
  from set_parameters_trace [OF 1] obtain writes where
    w: "s1 = s\<lparr>trace := trace s @ writes\<rparr>" "list_all (writes_rounded (param_type s) (sol_dvs sol)) writes"
      "map write_target writes = map Some (map fst (get_parameters env))"
    by blast
  have "s2 = s\<lparr>trace := trace s @ writes @ [RunIteration]\<rparr>"
    using run_iteration_state [OF 2] w(1) by (simp add: record_call_def)
  with 3 w show ?thesis by (intro exI [of _ writes]) simp
qed

lemma execute_Inr:
  assumes "execute env s = (Inr u, s')"
  shows "\<exists>prob s1 sol s2. build_problem env s = (Inr prob, s1) \<and>
     run_optimizer env prob s1 = (Inr sol, s2) \<and> pull_optimum env sol s2 = (Inr u, s')"
  using assms by (auto simp: execute_def split: prod.splits sum.splits)

lemma execute_final_writes:
  assumes "execute env s = (Inr u, s')"
  shows "\<exists>prob s1 sol s2 writes.
     build_problem env s = (Inr prob, s1) \<and> run_optimizer env prob s1 = (Inr sol, s2) \<and>
     pyOpt_solution s' = Some sol \<and>
     trace s' = trace s2 @ writes @ [RunIteration] \<and>
     map write_target writes = map Some (map fst (get_parameters env)) \<and>
     list_all (writes_rounded (param_type s') (sol_dvs sol)) writes"
proof -
  from execute_Inr [OF assms] obtain prob s1 sol s2 where
    b: "build_problem env s = (Inr prob, s1)"
    and r: "run_optimizer env prob s1 = (Inr sol, s2)"
    and p: "pull_optimum env sol s2 = (Inr u, s')"
    by blast
  from pull_optimum_Inr [OF p] obtain writes where
    s': "s' = s2\<lparr>pyOpt_solution := Some sol, trace := trace s2 @ writes @ [RunIteration]\<rparr>"
    and t: "map write_target writes = map Some (map fst (get_parameters env))"
    and w: "list_all (writes_rounded (param_type s2) (sol_dvs sol)) writes"
    by blast
  have f: "pyOpt_solution s' = Some sol" "trace s' = trace s2 @ writes @ [RunIteration]"
    "param_type s' = param_type s2"
    by (subst s', simp)+
  show ?thesis
    apply (rule exI [of _ prob], rule exI [of _ s1], rule exI [of _ sol], rule exI [of _ s2],
        rule exI [of _ writes])
    using b r f t w apply simp
    done
qed

lemma execute_writes_int:
  assumes "execute env s = (r, s')"
  shows "list_all (writes_int (param_type s')) (drop (length (trace s)) (trace s'))"
proof -
  obtain r1 s1 where 1: "build_problem env s = (r1, s1)" by (cases "build_problem env s")
  from build_problem_no_writes [OF 1] obtain new1 where
    n1: "trace s1 = trace s @ new1" "list_all (\<lambda>ev. write_target ev = None) new1"
    by blast
  have w: "\<And>types ev. write_target ev = None \<Longrightarrow> writes_int types ev"
    by (auto simp: writes_int_def split: event.splits)
  have i1: "list_all (writes_int types) new1" for types
    using n1(2) w by (auto simp: list_all_iff)
  show ?thesis
  proof (cases r1)
    case (Inl e)
    with assms 1 have "s' = s1" by (simp add: execute_def)
    with n1 i1 show ?thesis by simp
  next
    case (Inr prob)
    obtain r2 s2 where 2: "run_optimizer env prob s1 = (r2, s2)"
      by (cases "run_optimizer env prob s1")
    from run_optimizer_trace [OF 2] obtain new2 where
      n2: "s2 = s1\<lparr>trace := trace s1 @ new2\<rparr>" "list_all (writes_int (param_type s1)) new2"
      by blast
    have f2: "param_type s2 = param_type s1" "trace s2 = trace s @ new1 @ new2"
      using n1(1) by (subst n2(1), simp)+
    show ?thesis
    proof (cases r2)
      case (Inl e)
      with assms 1 Inr 2 have "s' = s2" by (simp add: execute_def)
      with f2 n2(2) i1 show ?thesis by simp
    next
      case sol: (Inr sol)
      with assms 1 Inr 2 have 3: "pull_optimum env sol s2 = (r, s')" by (simp add: execute_def)
      from pull_optimum_trace [OF 3] obtain new3 where
        n3: "param_type s' = param_type s2" "trace s' = trace s2 @ new3"
          "list_all (writes_rounded (param_type s2) (sol_dvs sol)) new3"
        by blast
      have "list_all (writes_int (param_type s2)) new3"
        using n3(3) by (auto simp: list_all_iff intro: writes_rounded_int)
      with n3 f2 n2(2) i1 show ?thesis by simp
    qed
  qed
qed

subsection \<open>The small model, evaluated\<close>

lemma demo_build_fst: "fst (build_problem demo_host (new_driver name)) = Inr demo_problem"
  by (simp add: build_problem_def run_iteration_def record_call_def demo_host_def new_driver_def
      vartype_choices_def save_lin_jacs_def calc_gradient_def Optimization_def addVarGroup_def
      addObj_def addConGroup_def getitem_def out0_def zeros_def Let_def demo_problem_def
      numeral_2_eq_2)

lemma demo_build_eq:
  "build_problem demo_host (new_driver name) =
     (Inr demo_problem, snd (build_problem demo_host (new_driver name)))"
  using demo_build_fst [of name] by (simp add: prod_eq_iff)

lemma demo_build:
  "build_problem demo_host (new_driver ''SNOPT'') = (Inr demo_problem, demo_ready)"
proof -
  have "fst (build_problem demo_host (new_driver ''SNOPT'')) = Inr demo_problem"
    by (simp add: build_problem_def run_iteration_def record_call_def demo_host_def new_driver_def
      vartype_choices_def save_lin_jacs_def calc_gradient_def Optimization_def addVarGroup_def
      addObj_def addConGroup_def getitem_def out0_def zeros_def Let_def demo_problem_def
      numeral_2_eq_2)
  then show ?thesis by (simp add: demo_ready_def prod_eq_iff)
qed

lemma demo_ready_eq:
  "demo_ready =
     \<lparr>optimizer = ''SNOPT'', title = ''Optimization using pyOpt'', options = [],
      print_results = True, pyopt_diff = False, pyOpt_solution = None,
      param_type = [(''x'', ''c''), (''n'', ''i'')], nparam = Some 2,
      objs = Some [''_pseudo_0.out0''], nlcons = Some [''_pseudo_2.out0''],
      lin_jacs = [(''_pseudo_1.out0'', [(''x'', NdArray [Finite 1]), (''n'', NdArray [Finite 1])])],
      trace = [RunIteration, CalcGradient [''x'', ''n''] [''_pseudo_1.out0'']]\<rparr>"
  by (simp add: demo_ready_def build_problem_def run_iteration_def record_call_def demo_host_def new_driver_def
      vartype_choices_def save_lin_jacs_def calc_gradient_def Optimization_def addVarGroup_def
      addObj_def addConGroup_def getitem_def out0_def zeros_def Let_def)

lemma demo_probe_n: "map_of demo_probe ''n'' = Some (NdArray [Finite (- 7 / 2)])"
  by (simp add: demo_probe_def)

lemma demo_solution_n: "map_of (sol_dvs demo_solution) ''n'' = Some (NdArray [Finite (5 / 2)])"
  by (simp add: demo_solution_def)

lemma demo_output_names:
  "output_names demo_host = [''_pseudo_0.out0'', ''_pseudo_1.out0'', ''_pseudo_2.out0'']"
  by (simp add: output_names_def demo_host_def out0_def)

lemma demo_objfunc:
  "objfunc demo_host demo_probe demo_ready =
     (Inr ([(''_pseudo_0.out0'', Array (PyFloat (Finite 1))),
            (''_pseudo_1.out0'', Array (NdArray [Finite 0])),
            (''_pseudo_2.out0'', Array (NdArray [Finite 0]))], 0),
      demo_ready\<lparr>trace := trace demo_ready @
        [SetParameter ''x'' (NdArray [Finite 2]), SetParameter ''n'' (PyInt (- 4)), RunIteration]\<rparr>)"
  unfolding demo_ready_eq
  by (simp add: objfunc_def objfunc_try_def demo_host_def demo_probe_def getitem_def
      set_parameter_by_name_def run_iteration_def record_call_def int_round_def round_half_away_def out0_def)

lemma failing_objfunc:
  "objfunc failing_host demo_probe demo_ready =
     (Inr ([], 1),
      demo_ready\<lparr>trace := trace demo_ready @
        [SetParameter ''x'' (NdArray [Finite 2]), SetParameter ''n'' (PyInt (- 4)), RunIteration,
         PrintMessage (HostError ''RuntimeError''), PrintRule,
         PrintExc (HostError ''RuntimeError''), PrintRule]\<rparr>)"
  unfolding demo_ready_eq
  by (simp add: objfunc_def objfunc_try_def failing_host_def demo_host_def demo_probe_def
      getitem_def set_parameter_by_name_def run_iteration_def record_call_def int_round_def
      round_half_away_def report_def print_stmt_def)

lemma unicode_objfunc:
  "objfunc unicode_host demo_probe demo_ready =
     (Inl UnicodeEncodeError,
      demo_ready\<lparr>trace := trace demo_ready @
        [SetParameter ''x'' (NdArray [Finite 2]), SetParameter ''n'' (PyInt (- 4)), RunIteration]\<rparr>)"
  unfolding demo_ready_eq
  by (simp add: objfunc_def objfunc_try_def unicode_host_def demo_host_def demo_probe_def
      getitem_def set_parameter_by_name_def run_iteration_def record_call_def int_round_def
      round_half_away_def report_def print_stmt_def)

lemma demo_gradfunc:
  "gradfunc demo_host demo_probe [] demo_ready =
     (Inr ([(''_pseudo_0.out0'', [(''x'', NdArray [Finite 1]), (''n'', NdArray [Finite 1])]),
            (''_pseudo_2.out0'', [(''x'', NdArray [Finite 1]), (''n'', NdArray [Finite 1])])], 0),
      demo_ready\<lparr>trace := trace demo_ready @
        [CalcGradient [''x'', ''n''] [''_pseudo_0.out0'', ''_pseudo_2.out0'']]\<rparr>)"
  unfolding demo_ready_eq
  by (simp add: gradfunc_def gradfunc_try_def demo_host_def demo_probe_def calc_gradient_def record_call_def)

lemma failing_gradfunc:
  "gradfunc failing_gradient_host demo_probe [] demo_ready =
     (Inr ([], 1),
      demo_ready\<lparr>trace := trace demo_ready @
        [CalcGradient [''x'', ''n''] [''_pseudo_0.out0'', ''_pseudo_2.out0''],
         PrintMessage (HostError ''RuntimeError''), PrintRule,
         PrintExc (HostError ''RuntimeError''), PrintRule]\<rparr>)"
  unfolding demo_ready_eq
  by (simp add: gradfunc_def gradfunc_try_def failing_gradient_host_def demo_host_def
      demo_probe_def calc_gradient_def record_call_def report_def print_stmt_def)

lemma unicode_gradfunc:
  "gradfunc unicode_gradient_host demo_probe [] demo_ready =
     (Inl UnicodeEncodeError,
      demo_ready\<lparr>trace := trace demo_ready @
        [CalcGradient [''x'', ''n''] [''_pseudo_0.out0'', ''_pseudo_2.out0'']]\<rparr>)"
  unfolding demo_ready_eq
  by (simp add: gradfunc_def gradfunc_try_def unicode_gradient_host_def demo_host_def
      demo_probe_def calc_gradient_def record_call_def report_def print_stmt_def)

lemma demo_execute:
  "execute demo_host (new_driver ''SNOPT'') =
     (Inr (),
      demo_ready\<lparr>pyOpt_solution := Some demo_solution,
        trace := [RunIteration, CalcGradient [''x'', ''n''] [''_pseudo_1.out0''],
          Import ''SNOPT'', Instantiate ''SNOPT'', CallSolver,
          SetParameter ''x'' (NdArray [Finite 2]), SetParameter ''n'' (PyInt (- 4)),
          RunIteration,
          CalcGradient [''x'', ''n''] [''_pseudo_0.out0'', ''_pseudo_2.out0''],
          PrintSolution, SetParameter ''x'' (NdArray [Finite (5 / 4)]),
          SetParameter ''n'' (PyInt 3), RunIteration]\<rparr>)"
proof -
  have o: "optimizer_run demo_host ''SNOPT'' [] demo_problem SensGradfunc =
      Probe demo_probe (\<lambda>r. Sens demo_probe [] (\<lambda>r. Finish demo_solution))"
    by (simp add: demo_host_def)
  have i: "importable demo_host ''SNOPT''" by (simp add: demo_host_def)
  have r: "run_optimizer demo_host demo_problem demo_ready =
     (Inr demo_solution, demo_ready\<lparr>trace := trace demo_ready @
        [Import ''SNOPT'', Instantiate ''SNOPT'', CallSolver,
          SetParameter ''x'' (NdArray [Finite 2]), SetParameter ''n'' (PyInt (- 4)),
          RunIteration,
          CalcGradient [''x'', ''n''] [''_pseudo_0.out0'', ''_pseudo_2.out0''],
          PrintSolution]\<rparr>)"
    unfolding demo_ready_eq
    apply (simp add: run_optimizer_def record_call_def print_stmt_def i o Let_def)
    apply (simp add: objfunc_def objfunc_try_def demo_host_def demo_probe_def getitem_def
      set_parameter_by_name_def run_iteration_def record_call_def int_round_def round_half_away_def out0_def
      gradfunc_def gradfunc_try_def calc_gradient_def print_stmt_def)
    done
  show ?thesis
    apply (simp add: execute_def demo_build r)
    unfolding demo_ready_eq
    by (simp add: pull_optimum_def demo_host_def demo_solution_def getitem_def
      set_parameter_by_name_def run_iteration_def record_call_def int_round_def round_half_away_def)
qed

lemma vec_build:
  "build_problem vec_host (new_driver ''SNOPT'') = (Inr vec_problem, vec_ready)"
proof -
  have "fst (build_problem vec_host (new_driver ''SNOPT'')) = Inr vec_problem"
    by (simp add: build_problem_def run_iteration_def record_call_def vec_host_def demo_host_def
      new_driver_def vartype_choices_def save_lin_jacs_def calc_gradient_def Optimization_def
      addVarGroup_def addObj_def addConGroup_def getitem_def out0_def zeros_def Let_def
      vec_problem_def demo_problem_def numeral_2_eq_2)
  then show ?thesis by (simp add: vec_ready_def prod_eq_iff)
qed

lemma vec_ready_eq:
  "vec_ready =
     \<lparr>optimizer = ''SNOPT'', title = ''Optimization using pyOpt'', options = [],
      print_results = True, pyopt_diff = False, pyOpt_solution = None,
      param_type = [(''k'', ''i'')], nparam = Some 3,
      objs = Some [''_pseudo_0.out0''], nlcons = Some [''_pseudo_2.out0''],
      lin_jacs = [(''_pseudo_1.out0'', [(''k'', NdArray [Finite 1])])],
      trace = [RunIteration, CalcGradient [''k''] [''_pseudo_1.out0'']]\<rparr>"
  by (simp add: vec_ready_def build_problem_def run_iteration_def record_call_def vec_host_def
      demo_host_def new_driver_def vartype_choices_def save_lin_jacs_def calc_gradient_def
      Optimization_def addVarGroup_def addObj_def addConGroup_def getitem_def out0_def zeros_def
      Let_def)

lemma vec_objfunc:
  "objfunc vec_host vec_probe vec_ready =
     (Inr ([], 1),
      vec_ready\<lparr>trace := trace vec_ready @
        [PrintMessage TypeError, PrintRule, PrintExc TypeError, PrintRule]\<rparr>)"
  unfolding vec_ready_eq
  by (simp add: objfunc_def objfunc_try_def vec_host_def demo_host_def vec_probe_def getitem_def
      int_round_def report_def print_stmt_def record_call_def)

lemma vec_execute:
  "execute vec_host (new_driver ''SNOPT'') =
     (Inl TypeError,
      vec_ready\<lparr>trace :=
        [RunIteration, CalcGradient [''k''] [''_pseudo_1.out0''],
         Import ''SNOPT'', Instantiate ''SNOPT'', CallSolver,
         PrintMessage TypeError, PrintRule, PrintExc TypeError, PrintRule,
         PrintSolution]\<rparr>)"
proof -
  have o: "optimizer_run vec_host ''SNOPT'' [] vec_problem SensGradfunc =
      Probe vec_probe (\<lambda>r. Finish vec_solution)"
    by (simp add: vec_host_def demo_host_def)
  have i: "importable vec_host ''SNOPT''" by (simp add: vec_host_def demo_host_def)
  have r: "run_optimizer vec_host vec_problem vec_ready =
     (Inr vec_solution, vec_ready\<lparr>trace := trace vec_ready @
        [Import ''SNOPT'', Instantiate ''SNOPT'', CallSolver,
         PrintMessage TypeError, PrintRule, PrintExc TypeError, PrintRule,
         PrintSolution]\<rparr>)"
    unfolding vec_ready_eq
    apply (simp add: run_optimizer_def record_call_def print_stmt_def i o Let_def)
    apply (simp add: objfunc_def objfunc_try_def vec_host_def demo_host_def vec_probe_def
      getitem_def int_round_def report_def print_stmt_def record_call_def)
    done
  show ?thesis
    apply (simp add: execute_def vec_build r)
    unfolding vec_ready_eq
    by (simp add: pull_optimum_def vec_host_def demo_host_def vec_solution_def vec_probe_def
      getitem_def int_round_def)
qed

section \<open>The claims\<close>

subsection \<open>C1: the variable kind of a parameter\<close>

text \<open>
  C1. The driver means to make a parameter discrete when its metadata has a \<^verbatim>\<open>'values'\<close>
  entry that is a list, a tuple, an array or a set, or when its value is a boolean; integer
  when the value is an integer; continuous when it is a float; and to raise \<^verbatim>\<open>ValueError\<close>
  for any other type. For a choice set that is a Python set (and for an array) the code
  does not get there: the \<^verbatim>\<open>isinstance\<close> test of line 95 raises \<^verbatim>\<open>TypeError\<close>, because \<^verbatim>\<open>array\<close>
  in its tuple of classes is a function. On the small model with such a parameter,
  \<^verbatim>\<open>execute\<close> stops with that error after the first model run: no kind is recorded and
  nothing but the model run has happened.
\<close>

theorem execute_set_choices_TypeError:
  "fst (execute set_choices_host (new_driver ''SNOPT'')) = Inl TypeError
   \<and> param_type (snd (execute set_choices_host (new_driver ''SNOPT''))) = []
   \<and> trace (snd (execute set_choices_host (new_driver ''SNOPT''))) = [RunIteration]"
  by (simp add: execute_def build_problem_def set_choices_host_def demo_host_def
      new_driver_def run_iteration_def record_call_def vartype_choices_def)

subsection \<open>C2: the contract of \<^verbatim>\<open>objfunc\<close>\<close>

text \<open>
  C2, as the code has it. Whatever the design point and the state, \<^verbatim>\<open>objfunc\<close> ends in one of
  four ways. Either every step of the \<^verbatim>\<open>try\<close> block completes, and it returns the failure
  flag 0 with a dictionary that has exactly one entry for each output name that \<^verbatim>\<open>execute\<close>
  registers for the objectives and the constraints. Or an exception that derives from
  \<^verbatim>\<open>Exception\<close> is raised in the block, it is caught, the message and the traceback are
  printed, and the callback returns the failure flag 1 with the dictionary as filled so
  far. Or the exception raised in the block does not derive from \<^verbatim>\<open>Exception\<close>: it is not
  caught and leaves the callback. Or the exception is caught and printing it raises: then
  what the printing raised leaves the callback.
\<close>

theorem objfunc_contract:
  assumes "objfunc env dv_dict s = (r, s')"
  shows "(\<exists>func_dict. r = Inr (func_dict, 0) \<and> objfunc_try env dv_dict s = ((None, func_dict), s')
            \<and> distinct (map fst func_dict) \<and> set (map fst func_dict) = set (output_names env))
       \<or> (\<exists>func_dict e s1. r = Inr (func_dict, 1) \<and> is_Exception e
            \<and> objfunc_try env dv_dict s = ((Some e, func_dict), s1)
            \<and> report env e s1 = (Inr (), s')
            \<and> trace s' = trace s1 @ [PrintMessage e, PrintRule, PrintExc e, PrintRule])
       \<or> (\<exists>func_dict e. r = Inl e \<and> \<not> is_Exception e
            \<and> objfunc_try env dv_dict s = ((Some e, func_dict), s'))
       \<or> (\<exists>func_dict e e' s1. r = Inl e' \<and> is_Exception e
            \<and> objfunc_try env dv_dict s = ((Some e, func_dict), s1)
            \<and> report env e s1 = (Inl e', s'))"
proof -
  obtain x fd s1 where t: "objfunc_try env dv_dict s = ((x, fd), s1)"
    by (metis prod.collapse)
  show ?thesis
  proof (cases x)
    case None
    with t assms have "r = Inr (fd, 0)" "s' = s1" by (auto simp: objfunc_def)
    with t None objfunc_try_keys [of env dv_dict s fd s1] show ?thesis by simp
  next
    case (Some e)
    show ?thesis
    proof (cases "is_Exception e")
      case False
      with Some t assms show ?thesis by (auto simp: objfunc_def)
    next
      case True
      obtain r2 s2 where rp: "report env e s1 = (r2, s2)" by (cases "report env e s1")
      show ?thesis
      proof (cases r2)
        case (Inl e')
        with Some True t rp assms have "r = Inl e'" "s' = s2" by (auto simp: objfunc_def)
        with Some True t rp Inl show ?thesis by auto
      next
        case (Inr u)
        with Some True t rp assms have "r = Inr (fd, 1)" "s' = s2" by (auto simp: objfunc_def)
        moreover from rp Inr have "report env e s1 = (Inr (), s2)" by simp
        moreover from report_Inr [OF this]
        have "trace s2 = trace s1 @ [PrintMessage e, PrintRule, PrintExc e, PrintRule]" by simp
        ultimately show ?thesis using Some True t by auto
      qed
    qed
  qed
qed

text \<open>
  The small model: a probe that succeeds, one where the model run fails, and one where the
  model run fails with a message that cannot be printed.
\<close>

theorem objfunc_contract_witness:
  "fst (objfunc demo_host demo_probe demo_ready) =
     Inr ([(''_pseudo_0.out0'', Array (PyFloat (Finite 1))),
           (''_pseudo_1.out0'', Array (NdArray [Finite 0])),
           (''_pseudo_2.out0'', Array (NdArray [Finite 0]))], 0)
   \<and> output_names demo_host = [''_pseudo_0.out0'', ''_pseudo_1.out0'', ''_pseudo_2.out0'']
   \<and> fst (objfunc failing_host demo_probe demo_ready) = Inr ([], 1)
   \<and> drop 5 (trace (snd (objfunc failing_host demo_probe demo_ready))) =
       [PrintMessage (HostError ''RuntimeError''), PrintRule,
        PrintExc (HostError ''RuntimeError''), PrintRule]
   \<and> fst (objfunc unicode_host demo_probe demo_ready) = Inl UnicodeEncodeError"
proof -
  have a: "fst (objfunc demo_host demo_probe demo_ready) =
     Inr ([(''_pseudo_0.out0'', Array (PyFloat (Finite 1))),
           (''_pseudo_1.out0'', Array (NdArray [Finite 0])),
           (''_pseudo_2.out0'', Array (NdArray [Finite 0]))], 0)"
    by (simp add: demo_objfunc)
  have b: "fst (objfunc failing_host demo_probe demo_ready) = Inr ([], 1)"
    by (simp add: failing_objfunc)
  have c: "drop 5 (trace (snd (objfunc failing_host demo_probe demo_ready))) =
       [PrintMessage (HostError ''RuntimeError''), PrintRule,
        PrintExc (HostError ''RuntimeError''), PrintRule]"
    unfolding failing_objfunc by (simp add: demo_ready_eq)
  have d: "fst (objfunc unicode_host demo_probe demo_ready) = Inl UnicodeEncodeError"
    by (simp add: unicode_objfunc)
  show ?thesis
    using objfunc_contract [OF demo_objfunc] objfunc_contract [OF failing_objfunc]
      objfunc_contract [OF unicode_objfunc]
    apply -
    apply (intro conjI)
        apply (rule a)
       apply (rule demo_output_names)
      apply (rule b)
     apply (rule c)
    apply (rule d)
    done
qed

text \<open>
  The claim says that no exception ever leaves the callback. An interrupt from the
  keyboard during the model run does.
\<close>

theorem objfunc_KeyboardInterrupt_escapes:
  "fst (objfunc interrupted_host demo_probe demo_ready) = Inl KeyboardInterrupt"
  unfolding demo_ready_eq
  by (simp add: objfunc_def objfunc_try_def interrupted_host_def demo_host_def demo_probe_def
      getitem_def set_parameter_by_name_def run_iteration_def record_call_def int_round_def
      round_half_away_def)

subsection \<open>C3: integer parameters are rounded\<close>

text \<open>
  C3. The comment of lines 227 and 228 says that integer parameters come back as floats and
  are rounded and turned into Python integers before they are set. The code does so for a
  group of one variable. For a parameter of several values, line 113 registers as many
  variables of kind \<^verbatim>\<open>'i'\<close>, the solver returns an array of that length for the group, and
  \<^verbatim>\<open>int(round(val))\<close> raises \<^verbatim>\<open>TypeError\<close> on it. On the small model with the integer parameter
  \<open>k\<close> of three values: the problem is built with three variables of kind \<^verbatim>\<open>'i'\<close>; every
  probe fails with the flag 1, an empty dictionary and no value set; and when the solver
  returns its optimum, \<^verbatim>\<open>execute\<close> stops with \<^verbatim>\<open>TypeError\<close> at the copy-back, no parameter
  having been set at any time.
\<close>

theorem vector_integer_group_TypeError:
  "build_problem vec_host (new_driver ''SNOPT'') = (Inr vec_problem, vec_ready)
   \<and> map (\<lambda>g. (vg_name g, vg_nvars g, vg_type g)) (op_variables vec_problem) = [(''k'', 3, ''i'')]
   \<and> param_type vec_ready = [(''k'', ''i'')]
   \<and> map_of vec_probe ''k'' = Some (NdArray [Finite (6 / 5), Finite (9 / 4), Finite (27 / 10)])
   \<and> objfunc vec_host vec_probe vec_ready =
       (Inr ([], 1),
        vec_ready\<lparr>trace := trace vec_ready @
          [PrintMessage TypeError, PrintRule, PrintExc TypeError, PrintRule]\<rparr>)
   \<and> sol_dvs vec_solution = vec_probe
   \<and> fst (execute vec_host (new_driver ''SNOPT'')) = Inl TypeError
   \<and> trace (snd (execute vec_host (new_driver ''SNOPT''))) =
       [RunIteration, CalcGradient [''k''] [''_pseudo_1.out0''],
        Import ''SNOPT'', Instantiate ''SNOPT'', CallSolver,
        PrintMessage TypeError, PrintRule, PrintExc TypeError, PrintRule,
        PrintSolution]
   \<and> last_set (trace (snd (execute vec_host (new_driver ''SNOPT'')))) ''k'' = None"
proof -
  have v: "map (\<lambda>g. (vg_name g, vg_nvars g, vg_type g)) (op_variables vec_problem) = [(''k'', 3, ''i'')]"
    by (simp add: vec_problem_def)
  have p: "map_of vec_probe ''k'' = Some (NdArray [Finite (6 / 5), Finite (9 / 4), Finite (27 / 10)])"
    by (simp add: vec_probe_def)
  have t: "param_type vec_ready = [(''k'', ''i'')]" by (simp add: vec_ready_eq)
  have d: "sol_dvs vec_solution = vec_probe" by (simp add: vec_solution_def)
  show ?thesis
    unfolding vec_execute
    using vec_build v t p vec_objfunc d by simp
qed

text \<open>
  What the code does do, for the values that it sets. First, in \<^verbatim>\<open>objfunc\<close>: each call of
  \<^verbatim>\<open>set_parameter_by_name\<close> that the callback makes passes the value of \<^verbatim>\<open>dv_dict\<close> for that
  parameter, and when the recorded kind of the parameter is \<^verbatim>\<open>'i'\<close> what it passes is a
  Python int, at most one half away from the solver's value. Second, when \<^verbatim>\<open>execute\<close>
  completes: it ends with one such call for each parameter, on the design variables of the
  solution, followed by one run of the model. Third, over a whole run of \<^verbatim>\<open>execute\<close>,
  whatever the solver does and however the run ends: a parameter of recorded kind \<^verbatim>\<open>'i'\<close>
  is only ever set to a Python int.
\<close>

lemma writes_of_integer_kind_rounded:
  "(objfunc env dv_dict s = (r, s') \<longrightarrow>
      (\<exists>new. trace s' = trace s @ new \<and> list_all (writes_rounded (param_type s) dv_dict) new))
   \<and> (execute env s0 = (Inr u, s1) \<longrightarrow>
      (\<exists>sol pre writes. pyOpt_solution s1 = Some sol \<and> trace s1 = pre @ writes @ [RunIteration] \<and>
         map write_target writes = map Some (map fst (get_parameters env)) \<and>
         list_all (writes_rounded (param_type s1) (sol_dvs sol)) writes))
   \<and> (execute env s0 = (r0, s2) \<longrightarrow>
      list_all (writes_int (param_type s2)) (drop (length (trace s0)) (trace s2)))"
proof (intro conjI impI)
  assume "objfunc env dv_dict s = (r, s')"
  from objfunc_trace [OF this] obtain new where
    "s' = s\<lparr>trace := trace s @ new\<rparr>" "list_all (writes_rounded (param_type s) dv_dict) new"
    by blast
  then show "\<exists>new. trace s' = trace s @ new \<and> list_all (writes_rounded (param_type s) dv_dict) new"
    by (intro exI [of _ new]) simp
next
  assume "execute env s0 = (Inr u, s1)"
  from execute_final_writes [OF this]
  show "\<exists>sol pre writes. pyOpt_solution s1 = Some sol \<and> trace s1 = pre @ writes @ [RunIteration] \<and>
         map write_target writes = map Some (map fst (get_parameters env)) \<and>
         list_all (writes_rounded (param_type s1) (sol_dvs sol)) writes"
    by blast
next
  assume "execute env s0 = (r0, s2)"
  then show "list_all (writes_int (param_type s2)) (drop (length (trace s0)) (trace s2))"
    by (rule execute_writes_int)
qed

text \<open>
  The small model: the probe has \<open>n = -3.5\<close> and the callback sets \<open>-4\<close>; the optimum has
  \<open>n = 2.5\<close> and the host is left with \<open>3\<close>.
\<close>

lemma writes_of_integer_kind_rounded_demo:
  "objfunc demo_host demo_probe demo_ready =
     (Inr ([(''_pseudo_0.out0'', Array (PyFloat (Finite 1))),
            (''_pseudo_1.out0'', Array (NdArray [Finite 0])),
            (''_pseudo_2.out0'', Array (NdArray [Finite 0]))], 0),
      demo_ready\<lparr>trace := trace demo_ready @
        [SetParameter ''x'' (NdArray [Finite 2]), SetParameter ''n'' (PyInt (- 4)), RunIteration]\<rparr>)
   \<and> map_of demo_probe ''n'' = Some (NdArray [Finite (- 7 / 2)])
   \<and> fst (execute demo_host (new_driver ''SNOPT'')) = Inr ()
   \<and> map_of (sol_dvs demo_solution) ''n'' = Some (NdArray [Finite (5 / 2)])
   \<and> last_set (trace (snd (execute demo_host (new_driver ''SNOPT'')))) ''n'' = Some (PyInt 3)"
  using writes_of_integer_kind_rounded [of demo_host demo_probe demo_ready
      "fst (objfunc demo_host demo_probe demo_ready)" "snd (objfunc demo_host demo_probe demo_ready)"
      "new_driver ''SNOPT''" "()" "snd (execute demo_host (new_driver ''SNOPT''))"
      "fst (execute demo_host (new_driver ''SNOPT''))" "snd (execute demo_host (new_driver ''SNOPT''))"]
    demo_objfunc
  by (simp add: demo_execute demo_probe_n demo_solution_n)

subsection \<open>C4: the host is left at the optimum\<close>

text \<open>
  C4. When \<^verbatim>\<open>execute\<close> completes, the solver has returned a solution, which is saved in
  \<^verbatim>\<open>pyOpt_solution\<close>; after the solver's last call the driver has set every parameter once,
  in order, to its value in the solution's design variables (rounded to a Python int for
  kind \<^verbatim>\<open>'i'\<close>), and then run the model exactly once more, which is the last thing it
  does. So the last value that the host was given for each parameter is the optimum's,
  not a probe's.
\<close>

theorem execute_leaves_optimum:
  assumes "execute env s = (Inr u, s')"
  shows "\<exists>prob s1 sol s2 writes.
     build_problem env s = (Inr prob, s1) \<and> run_optimizer env prob s1 = (Inr sol, s2) \<and>
     pyOpt_solution s' = Some sol \<and>
     trace s' = trace s2 @ writes @ [RunIteration] \<and>
     map write_target writes = map Some (map fst (get_parameters env)) \<and>
     list_all (writes_rounded (param_type s') (sol_dvs sol)) writes \<and>
     (\<forall>name \<in> set (map fst (get_parameters env)).
        \<exists>v. last_set (trace s') name = Some v \<and>
            writes_rounded (param_type s') (sol_dvs sol) (SetParameter name v))"
proof -
  from execute_final_writes [OF assms] obtain prob s1 sol s2 writes where
    b: "build_problem env s = (Inr prob, s1)"
    and r: "run_optimizer env prob s1 = (Inr sol, s2)"
    and o: "pyOpt_solution s' = Some sol"
    and h: "trace s' = trace s2 @ writes @ [RunIteration]"
    and t: "map write_target writes = map Some (map fst (get_parameters env))"
    and w: "list_all (writes_rounded (param_type s') (sol_dvs sol)) writes"
    by blast
  have l: "\<forall>name \<in> set (map fst (get_parameters env)).
        \<exists>v. last_set (trace s') name = Some v \<and>
            writes_rounded (param_type s') (sol_dvs sol) (SetParameter name v)"
    unfolding h using last_set_writes [OF w _ t] by blast
  show ?thesis
    apply (rule exI [of _ prob], rule exI [of _ s1], rule exI [of _ sol], rule exI [of _ s2],
        rule exI [of _ writes])
    using b r o h t w l apply simp
    done
qed

text \<open>The small model: the solver probes \<open>x = 2\<close>, \<open>n = -3.5\<close> and returns \<open>x = 1.25\<close>, \<open>n = 2.5\<close>.\<close>

theorem execute_leaves_optimum_witness:
  "fst (execute demo_host (new_driver ''SNOPT'')) = Inr ()
   \<and> last_set (trace (snd (execute demo_host (new_driver ''SNOPT'')))) ''x'' = Some (NdArray [Finite (5 / 4)])
   \<and> last_set (trace (snd (execute demo_host (new_driver ''SNOPT'')))) ''n'' = Some (PyInt 3)
   \<and> last (trace (snd (execute demo_host (new_driver ''SNOPT'')))) = RunIteration
   \<and> pyOpt_solution (snd (execute demo_host (new_driver ''SNOPT''))) = Some demo_solution"
  using execute_leaves_optimum [OF demo_execute]
  by (simp add: demo_execute)

subsection \<open>C5: an optimizer that does not import\<close>

text \<open>
  C5. If the problem has been built and the optimizer's name does not import, \<^verbatim>\<open>execute\<close>
  raises \<^verbatim>\<open>ImportError\<close> with a message that names the optimizer. All it has done by then
  is the first model run, the Jacobian of the linear constraints (if there are any) and
  the attempt to import: no optimizer has been created, given an option or run.
\<close>

theorem unavailable_optimizer_ImportError:
  assumes "build_problem env s = (Inr prob, s1)" and "\<not> importable env (optimizer s)"
  shows "execute env s =
           (Inl (ImportError (''Optimizer '' @ optimizer s @ '' is not available in this installation.'')),
            record_call (Import (optimizer s)) s1)
       \<and> trace (record_call (Import (optimizer s)) s1) =
           trace s @ RunIteration #
             (if linear_names env = [] then []
              else [CalcGradient (map fst (get_parameters env)) (linear_names env)]) @
             [Import (optimizer s)]
       \<and> \<not> list_ex solver_call (drop (length (trace s)) (trace (record_call (Import (optimizer s)) s1)))"
proof -
  note t = build_problem_trace [OF assms(1)]
  then have o: "optimizer s1 = optimizer s" by blast
  have e: "execute env s =
           (Inl (ImportError (''Optimizer '' @ optimizer s @ '' is not available in this installation.'')),
            record_call (Import (optimizer s)) s1)"
    using assms o by (simp add: execute_def run_optimizer_def unavailable_msg_def Let_def)
  have tr: "trace (record_call (Import (optimizer s)) s1) =
           trace s @ RunIteration #
             (if linear_names env = [] then []
              else [CalcGradient (map fst (get_parameters env)) (linear_names env)]) @
             [Import (optimizer s)]"
    using t by (simp add: record_call_def)
  have "\<not> list_ex solver_call (drop (length (trace s)) (trace (record_call (Import (optimizer s)) s1)))"
    unfolding tr by simp
  with e tr show ?thesis by blast
qed

text \<open>The small model, asked for ALPSO.\<close>

theorem unavailable_optimizer_ImportError_witness:
  "\<not> importable demo_host (optimizer (new_driver ''ALPSO''))
   \<and> fst (execute demo_host (new_driver ''ALPSO'')) =
       Inl (ImportError ''Optimizer ALPSO is not available in this installation.'')
   \<and> trace (snd (execute demo_host (new_driver ''ALPSO''))) =
       [RunIteration, CalcGradient [''x'', ''n''] [''_pseudo_1.out0''], Import ''ALPSO'']"
proof -
  have i: "\<not> importable demo_host (optimizer (new_driver ''ALPSO''))"
    by (simp add: demo_host_def new_driver_def)
  have l: "linear_names demo_host = [''_pseudo_1.out0'']" "map fst (get_parameters demo_host) = [''x'', ''n'']"
    by (simp_all add: linear_names_def demo_host_def out0_def)
  have o: "optimizer (new_driver ''ALPSO'') = ''ALPSO''" "trace (new_driver ''ALPSO'') = []"
    by (simp_all add: new_driver_def)
  show ?thesis
    using unavailable_optimizer_ImportError [OF demo_build_eq i] i
    unfolding l o by simp
qed

subsection \<open>C6: linear and nonlinear constraints\<close>

text \<open>
  C6. When the problem has been built: the driver has asked the host for a gradient exactly
  once if some constraint is flagged linear (for all the linear constraints, with respect
  to all the parameters) and not at all otherwise, and what the host returned is in
  \<^verbatim>\<open>lin_jacs\<close>; every linear constraint is registered as linear, with respect to the
  parameters, with its entry of \<^verbatim>\<open>lin_jacs\<close> as Jacobian; every other constraint is
  registered without a Jacobian, and \<^verbatim>\<open>nlcons\<close> lists exactly those; and from then on each
  call of \<^verbatim>\<open>gradfunc\<close> asks the host for the gradients of the objectives and of the
  constraints in \<^verbatim>\<open>nlcons\<close>.
\<close>

theorem linear_jacobians_precomputed:
  assumes "build_problem env s = (Inr prob, s')"
  shows "trace s' = trace s @ RunIteration #
           (if linear_names env = [] then []
            else [CalcGradient (map fst (get_parameters env)) (linear_names env)])
       \<and> (linear_names env = [] \<or>
            calc_gradient_returns env (trace s @ [RunIteration]) (map fst (get_parameters env))
              (linear_names env) = Inr (lin_jacs s'))
       \<and> list_all2 (\<lambda>(key, con). jacobian_supplied (map fst (get_parameters env)) (lin_jacs s') con)
            (get_eq_constraints env @ get_ineq_constraints env) (op_constraints prob)
       \<and> nlcons s' = Some (nonlinear_names env)
       \<and> (\<forall>dv fd. \<exists>rest. trace (snd (gradfunc env dv fd s')) =
            trace s' @ CalcGradient (map fst dv) (list_objective_targets env @ nonlinear_names env) # rest)"
proof -
  note t = build_problem_trace [OF assms]
  from build_problem_groups [OF assms] obtain gs hs where
    c: "op_constraints prob = gs @ hs"
    and gs: "list_all2 (\<lambda>(key, con) g. zero_bounds True con g \<and>
         jacobian_supplied (map fst (get_parameters env)) (lin_jacs s') con g)
       (get_eq_constraints env) gs"
    and hs: "list_all2 (\<lambda>(key, con) g. zero_bounds False con g \<and>
         jacobian_supplied (map fst (get_parameters env)) (lin_jacs s') con g)
       (get_ineq_constraints env) hs"
    by blast
  have g1: "list_all2 (\<lambda>(key, con). jacobian_supplied (map fst (get_parameters env)) (lin_jacs s') con)
      (get_eq_constraints env) gs"
    using gs by (rule list_all2_mono) auto
  have g2: "list_all2 (\<lambda>(key, con). jacobian_supplied (map fst (get_parameters env)) (lin_jacs s') con)
      (get_ineq_constraints env) hs"
    using hs by (rule list_all2_mono) auto
  have j: "list_all2 (\<lambda>(key, con). jacobian_supplied (map fst (get_parameters env)) (lin_jacs s') con)
            (get_eq_constraints env @ get_ineq_constraints env) (op_constraints prob)"
    unfolding c using g1 g2 by (rule list_all2_appendI)
  have g: "\<forall>dv fd. \<exists>rest. trace (snd (gradfunc env dv fd s')) =
            trace s' @ CalcGradient (map fst dv) (list_objective_targets env @ nonlinear_names env) # rest"
    using gradfunc_requests [of s' "list_objective_targets env" "nonlinear_names env" env] t
    by blast
  from t j g show ?thesis by blast
qed

text \<open>The small model: one linear equality constraint, one nonlinear inequality constraint.\<close>

theorem linear_jacobians_precomputed_witness:
  "build_problem demo_host (new_driver ''SNOPT'') = (Inr demo_problem, demo_ready)
   \<and> trace demo_ready = [RunIteration, CalcGradient [''x'', ''n''] [''_pseudo_1.out0'']]
   \<and> nlcons demo_ready = Some [''_pseudo_2.out0'']"
proof -
  have l: "linear_names demo_host = [''_pseudo_1.out0'']" "map fst (get_parameters demo_host) = [''x'', ''n'']"
    "nonlinear_names demo_host = [''_pseudo_2.out0'']" "trace (new_driver ''SNOPT'') = []"
    by (simp_all add: linear_names_def nonlinear_names_def demo_host_def out0_def new_driver_def)
  show ?thesis
    using linear_jacobians_precomputed [OF demo_build] demo_build
    unfolding l by simp
qed

subsection \<open>C7: a continuous parameter\<close>

text \<open>
  C7. When the problem has been built, a parameter with no \<^verbatim>\<open>'values'\<close> metadata whose
  first value is a float is registered as a variable group of kind \<^verbatim>\<open>'c'\<close>, with the
  parameter's lower and upper bounds, its current values, as many variables as it has
  values, and no choices.
\<close>

theorem continuous_parameter_registered:
  assumes "build_problem env s = (Inr prob, s')"
    and "(name, p) \<in> set (get_parameters env)"
    and "map_of (p_metadata p) ''values'' = None"
    and "p_values p = v # vs" and "is_float v"
  shows "\<lparr>vg_name = name, vg_nvars = length (p_values p), vg_type = ''c'',
          vg_lower = p_low p, vg_upper = p_high p, vg_value = p_values p,
          vg_choices = PyList []\<rparr> \<in> set (op_variables prob)"
proof -
  have k: "vartype_choices name (p_metadata p) (p_values p) = Inr (''c'', PyList [])"
    using assms(3,4,5) by (cases v) (simp_all add: vartype_choices_def)
  from build_problem_groups [OF assms(1)] have
    "list_all2 (\<lambda>(name, p) g.
         vartype_choices name (p_metadata p) (p_values p) = Inr (vg_type g, vg_choices g) \<and>
         g = \<lparr>vg_name = name, vg_nvars = length (p_values p), vg_type = vg_type g,
              vg_lower = p_low p, vg_upper = p_high p, vg_value = p_values p,
              vg_choices = vg_choices g\<rparr>) (get_parameters env) (op_variables prob)"
    by blast
  from list_all2_memberD [OF this assms(2)] obtain g where
    g: "g \<in> set (op_variables prob)"
    "vartype_choices name (p_metadata p) (p_values p) = Inr (vg_type g, vg_choices g)"
    "g = \<lparr>vg_name = name, vg_nvars = length (p_values p), vg_type = vg_type g,
              vg_lower = p_low p, vg_upper = p_high p, vg_value = p_values p,
              vg_choices = vg_choices g\<rparr>"
    by auto
  from g(2) k have "vg_type g = ''c''" "vg_choices g = PyList []" by simp_all
  with g(1,3) show ?thesis by simp
qed

text \<open>The small model: \<open>x\<close> in [0, 10], at 1.5.\<close>

theorem continuous_parameter_registered_witness:
  "build_problem demo_host (new_driver ''SNOPT'') = (Inr demo_problem, demo_ready)
   \<and> \<lparr>vg_name = ''x'', vg_nvars = 1, vg_type = ''c'', vg_lower = PyFloat (Finite 0),
       vg_upper = PyFloat (Finite 10), vg_value = [PyFloat (Finite (3 / 2))],
       vg_choices = PyList []\<rparr> \<in> set (op_variables demo_problem)"
proof -
  define p where "p = \<lparr>p_metadata = [], p_values = [PyFloat (Finite (3 / 2))],
                  p_low = PyFloat (Finite 0), p_high = PyFloat (Finite 10)\<rparr>"
  have 1: "(''x'', p) \<in> set (get_parameters demo_host)"
    by (simp add: demo_host_def p_def)
  have 2: "map_of (p_metadata p) ''values'' = None" by (simp add: p_def)
  have 3: "p_values p = PyFloat (Finite (3 / 2)) # []" by (simp add: p_def)
  have 4: "is_float (PyFloat (Finite (3 / 2)))" by simp
  show ?thesis
    using continuous_parameter_registered [OF demo_build 1 2 3 4] demo_build
    by (simp add: p_def)
qed

subsection \<open>C8: the contract of \<^verbatim>\<open>gradfunc\<close>\<close>

text \<open>
  C8, as the code has it. Take the driver as \<^verbatim>\<open>execute\<close> has built the problem, after any
  further calls, and a host whose \<^verbatim>\<open>list_objective_targets\<close> lists the output names of its
  objectives. A call of \<^verbatim>\<open>gradfunc\<close> asks the host once, for the gradients of all the
  objectives registered in the problem and of all the constraints registered there as
  not linear, with respect to all the keys of \<^verbatim>\<open>dv_dict\<close>, and ends in one of four ways.
  Either the host returns the gradients, and the callback returns them with the failure
  flag 0. Or the host raises an exception that derives from \<^verbatim>\<open>Exception\<close>, it is caught, the
  message and the traceback are printed, and the callback returns the failure flag 1 with
  an empty dictionary. Or the exception does not derive from \<^verbatim>\<open>Exception\<close>: it is not caught
  and leaves the callback. Or the exception is caught and printing it raises: then what
  the printing raised leaves the callback.
\<close>

theorem gradfunc_contract:
  assumes "build_problem env s0 = (Inr opt_prob, s1)"
    and "list_objective_targets env =
           map (\<lambda>(key, obj). out0 (o_pcomp_name obj)) (get_objectives env)"
    and "outputs = op_objectives opt_prob @
           map cg_name (filter (\<lambda>g. \<not> cg_linear g) (op_constraints opt_prob))"
    and "gradfunc env dv_dict func_dict (s1\<lparr>trace := h\<rparr>) = (r, s')"
  shows "(\<exists>sens_dict. r = Inr (sens_dict, 0)
            \<and> calc_gradient_returns env h (map fst dv_dict) outputs = Inr sens_dict
            \<and> s' = s1\<lparr>trace := h @ [CalcGradient (map fst dv_dict) outputs]\<rparr>)
       \<or> (\<exists>e. r = Inr ([], 1) \<and> is_Exception e
            \<and> calc_gradient_returns env h (map fst dv_dict) outputs = Inl e
            \<and> report env e (s1\<lparr>trace := h @ [CalcGradient (map fst dv_dict) outputs]\<rparr>) = (Inr (), s')
            \<and> trace s' = h @ [CalcGradient (map fst dv_dict) outputs,
                 PrintMessage e, PrintRule, PrintExc e, PrintRule])
       \<or> (\<exists>e. r = Inl e \<and> \<not> is_Exception e
            \<and> calc_gradient_returns env h (map fst dv_dict) outputs = Inl e
            \<and> s' = s1\<lparr>trace := h @ [CalcGradient (map fst dv_dict) outputs]\<rparr>)
       \<or> (\<exists>e e'. r = Inl e' \<and> is_Exception e
            \<and> calc_gradient_returns env h (map fst dv_dict) outputs = Inl e
            \<and> report env e (s1\<lparr>trace := h @ [CalcGradient (map fst dv_dict) outputs]\<rparr>) = (Inl e', s'))"
proof -
  note t = build_problem_trace [OF assms(1)]
  have outs: "outputs = list_objective_targets env @ nonlinear_names env"
    using build_problem_outputs [OF assms(1)] assms(2,3) by simp
  define s2 where "s2 = s1\<lparr>trace := h @ [CalcGradient (map fst dv_dict) outputs]\<rparr>"
  have g: "gradfunc_try env dv_dict (s1\<lparr>trace := h\<rparr>) =
      (calc_gradient_returns env h (map fst dv_dict) outputs, s2)"
    using t by (simp add: gradfunc_try_def calc_gradient_def record_call_def outs s2_def)
  show ?thesis
  proof (cases "calc_gradient_returns env h (map fst dv_dict) outputs")
    case (Inr sens_dict)
    with g assms(4) have "r = Inr (sens_dict, 0)" "s' = s2" by (auto simp: gradfunc_def)
    with Inr show ?thesis by (simp add: s2_def)
  next
    case (Inl e)
    show ?thesis
    proof (cases "is_Exception e")
      case False
      with Inl g assms(4) have "r = Inl e" "s' = s2" by (auto simp: gradfunc_def)
      with Inl False show ?thesis by (simp add: s2_def)
    next
      case True
      obtain r2 s3 where rp: "report env e s2 = (r2, s3)" by (cases "report env e s2")
      show ?thesis
      proof (cases r2)
        case e': (Inl e')
        with Inl True g rp assms(4) have "r = Inl e'" "s' = s3" by (auto simp: gradfunc_def)
        with Inl True rp e' show ?thesis unfolding s2_def by auto
      next
        case (Inr u)
        with Inl True g rp assms(4) have "r = Inr ([], 1)" "s' = s3" by (auto simp: gradfunc_def)
        moreover from rp Inr have rp': "report env e s2 = (Inr (), s3)" by simp
        moreover from report_Inr [OF rp']
        have "trace s3 = h @ [CalcGradient (map fst dv_dict) outputs,
                 PrintMessage e, PrintRule, PrintExc e, PrintRule]"
          by (simp add: s2_def)
        ultimately show ?thesis using Inl True unfolding s2_def by auto
      qed
    qed
  qed
qed

text \<open>
  The small model: a call that succeeds, one where the differentiation fails, and one
  where it fails with a message that cannot be printed.
\<close>

theorem gradfunc_contract_witness:
  "build_problem demo_host (new_driver ''SNOPT'') = (Inr demo_problem, demo_ready)
   \<and> list_objective_targets demo_host =
       map (\<lambda>(key, obj). out0 (o_pcomp_name obj)) (get_objectives demo_host)
   \<and> op_objectives demo_problem @
       map cg_name (filter (\<lambda>g. \<not> cg_linear g) (op_constraints demo_problem)) =
       [''_pseudo_0.out0'', ''_pseudo_2.out0'']
   \<and> gradfunc demo_host demo_probe [] demo_ready =
     (Inr ([(''_pseudo_0.out0'', [(''x'', NdArray [Finite 1]), (''n'', NdArray [Finite 1])]),
            (''_pseudo_2.out0'', [(''x'', NdArray [Finite 1]), (''n'', NdArray [Finite 1])])], 0),
      demo_ready\<lparr>trace := trace demo_ready @
        [CalcGradient [''x'', ''n''] [''_pseudo_0.out0'', ''_pseudo_2.out0'']]\<rparr>)
   \<and> fst (gradfunc failing_gradient_host demo_probe [] demo_ready) = Inr ([], 1)
   \<and> fst (gradfunc unicode_gradient_host demo_probe [] demo_ready) = Inl UnicodeEncodeError"
proof -
  have t: "list_objective_targets demo_host =
       map (\<lambda>(key, obj). out0 (o_pcomp_name obj)) (get_objectives demo_host)"
    by (simp add: demo_host_def out0_def)
  have o: "[''_pseudo_0.out0'', ''_pseudo_2.out0''] = op_objectives demo_problem @
       map cg_name (filter (\<lambda>g. \<not> cg_linear g) (op_constraints demo_problem))"
    by (simp add: demo_problem_def)
  have g: "gradfunc demo_host demo_probe [] (demo_ready\<lparr>trace := trace demo_ready\<rparr>) =
     (Inr ([(''_pseudo_0.out0'', [(''x'', NdArray [Finite 1]), (''n'', NdArray [Finite 1])]),
            (''_pseudo_2.out0'', [(''x'', NdArray [Finite 1]), (''n'', NdArray [Finite 1])])], 0),
      demo_ready\<lparr>trace := trace demo_ready @
        [CalcGradient [''x'', ''n''] [''_pseudo_0.out0'', ''_pseudo_2.out0'']]\<rparr>)"
    using demo_gradfunc by simp
  show ?thesis
    using gradfunc_contract [OF demo_build t o g] demo_build t o [symmetric]
    by (simp add: demo_gradfunc failing_gradfunc unicode_gradfunc)
qed

text \<open>
  The claim says that no exception ever leaves the callback. A component that leaves the
  interpreter while it is differentiated makes one do so.
\<close>

theorem gradfunc_SystemExit_escapes:
  "fst (gradfunc exiting_host demo_probe [] demo_ready) = Inl SystemExit"
  unfolding demo_ready_eq
  by (simp add: gradfunc_def gradfunc_try_def exiting_host_def demo_host_def demo_probe_def
      calc_gradient_def record_call_def)

subsection \<open>C9: the bounds of the constraints\<close>

text \<open>
  C9. When the problem has been built, its constraint groups are those of the equality
  constraints followed by those of the inequality constraints, in order; an equality
  constraint of size \<open>n\<close> has \<open>n\<close> zeros as lower and as upper bound, an inequality
  constraint of size \<open>n\<close> has \<open>n\<close> zeros as upper bound and no lower bound.
\<close>

theorem constraints_zero_bounds:
  assumes "build_problem env s = (Inr prob, s')"
  shows "\<exists>gs hs. op_constraints prob = gs @ hs \<and>
     list_all2 (\<lambda>(key, con). zero_bounds True con) (get_eq_constraints env) gs \<and>
     list_all2 (\<lambda>(key, con). zero_bounds False con) (get_ineq_constraints env) hs"
proof -
  from build_problem_groups [OF assms] obtain gs hs where
    c: "op_constraints prob = gs @ hs"
    and gs: "list_all2 (\<lambda>(key, con) g. zero_bounds True con g \<and>
         jacobian_supplied (map fst (get_parameters env)) (lin_jacs s') con g)
       (get_eq_constraints env) gs"
    and hs: "list_all2 (\<lambda>(key, con) g. zero_bounds False con g \<and>
         jacobian_supplied (map fst (get_parameters env)) (lin_jacs s') con g)
       (get_ineq_constraints env) hs"
    by blast
  have "list_all2 (\<lambda>(key, con). zero_bounds True con) (get_eq_constraints env) gs"
    using gs by (rule list_all2_mono) auto
  moreover have "list_all2 (\<lambda>(key, con). zero_bounds False con) (get_ineq_constraints env) hs"
    using hs by (rule list_all2_mono) auto
  ultimately show ?thesis using c by blast
qed

text \<open>The small model.\<close>

theorem constraints_zero_bounds_witness:
  "build_problem demo_host (new_driver ''SNOPT'') = (Inr demo_problem, demo_ready)
   \<and> (\<exists>gs hs. op_constraints demo_problem = gs @ hs \<and>
     list_all2 (\<lambda>(key, con). zero_bounds True con) (get_eq_constraints demo_host) gs \<and>
     list_all2 (\<lambda>(key, con). zero_bounds False con) (get_ineq_constraints demo_host) hs)"
  using constraints_zero_bounds [OF demo_build] demo_build by blast

subsection \<open>C10: only the first value decides\<close>

text \<open>
  C10. For a parameter with no \<^verbatim>\<open>'values'\<close> metadata, one pass of the loop of lines 85 to
  116 depends on the values after the first only through their number and through the
  value vector it hands on: the kind (or the error) is that of the first value, and the
  one kind is registered for the whole group. Nothing looks at the other values.
\<close>

theorem vartype_from_first_value_only:
  assumes "map_of (p_metadata p) ''values'' = None" and "p_values p = v # vs"
  shows "add_parameters [(name, p)] opt_prob param_list s =
     (case vartype_of_value name v of
        Inl e \<Rightarrow> (Inl e, s)
      | Inr (vartype, choices) \<Rightarrow>
          (Inr (addVarGroup
                 \<lparr>vg_name = name, vg_nvars = Suc (length vs), vg_type = vartype,
                  vg_lower = p_low p, vg_upper = p_high p,
                  vg_value = v # vs, vg_choices = choices\<rparr> opt_prob,
                param_list @ [name]),
           s\<lparr>param_type := AList.update name vartype (param_type s)\<rparr>))"
  using assms by (simp add: vartype_choices_def split: sum.splits prod.splits)

text \<open>A vector of an int, a string and a float is registered as three integer variables.\<close>

theorem vartype_from_first_value_only_witness:
  "map_of (p_metadata \<lparr>p_metadata = [], p_values = [PyInt 1, PyStr ''a'', PyFloat (Finite (1 / 2))],
       p_low = PyInt 0, p_high = PyInt 5\<rparr>) ''values'' = None
   \<and> add_parameters
       [(''k'', \<lparr>p_metadata = [], p_values = [PyInt 1, PyStr ''a'', PyFloat (Finite (1 / 2))],
                 p_low = PyInt 0, p_high = PyInt 5\<rparr>)]
       (Optimization ''t'') [] (new_driver ''SNOPT'') =
     (Inr (\<lparr>op_title = ''t'',
            op_variables =
              [\<lparr>vg_name = ''k'', vg_nvars = 3, vg_type = ''i'', vg_lower = PyInt 0,
                vg_upper = PyInt 5,
                vg_value = [PyInt 1, PyStr ''a'', PyFloat (Finite (1 / 2))],
                vg_choices = PyList []\<rparr>],
            op_objectives = [], op_constraints = []\<rparr>, [''k'']),
      (new_driver ''SNOPT'')\<lparr>param_type := [(''k'', ''i'')]\<rparr>)"
  using vartype_from_first_value_only [of
      "\<lparr>p_metadata = [], p_values = [PyInt 1, PyStr ''a'', PyFloat (Finite (1 / 2))],
        p_low = PyInt 0, p_high = PyInt 5\<rparr>" "PyInt 1" "[PyStr ''a'', PyFloat (Finite (1 / 2))]"
      "''k''" "Optimization ''t''" "[]" "new_driver ''SNOPT''"]
  by (simp add: Optimization_def addVarGroup_def new_driver_def)

end
